theory Spec2Isabelle
  imports Complex_Main "HOL-Library.Sublist"
begin

section \<open>Super-resolution training driver (practical\_work\_2\_cnn/main.py)\<close>

text \<open>
  The script is top-level code around three functions, \<open>train\<close>, \<open>test\<close> and
  \<open>checkpoint\<close>. Everything it calls in torch, in \<open>model.py\<close> and in \<open>data.py\<close> is
  outside the repository's source and is taken as a parameter: a record \<open>torch\<close> of the
  operations the script invokes. Python's floats are modelled as reals, Python's ints as
  \<open>int\<close>, and every \<open>raise\<close> of the script and of the Python arithmetic it performs itself
  (\<open>/\<close>, \<open>math.log10\<close>) is a branch returning the error. What the process writes and which
  external operations it calls are recorded, in program order, in a list of events.
\<close>

subsection \<open>Python values\<close>

datatype py_error =
    SystemExit int
  | Exception string
  | ZeroDivisionError
  | ValueError

text \<open>An uncaught exception ends the interpreter with status 1, \<open>SystemExit n\<close> with \<open>n\<close>.\<close>

fun exit_status :: "py_error option \<Rightarrow> int" where
  "exit_status None = 0"
| "exit_status (Some (SystemExit n)) = n"
| "exit_status (Some _) = 1"

text \<open>\<open>str\<close> of an int, as an f-string field \<open>{epoch}\<close> renders it.\<close>

definition digit_char :: "nat \<Rightarrow> char" where
  "digit_char d = ''0123456789'' ! d"

function str_nat :: "nat \<Rightarrow> string" where
  "str_nat n = (if n < 10 then [digit_char n] else str_nat (n div 10) @ [digit_char (n mod 10)])"
  by pat_completeness auto
termination
  by (relation "measure id") auto

declare str_nat.simps [simp del]

definition str_int :: "int \<Rightarrow> string" where
  "str_int i = (if i < 0 then CHR ''-'' # str_nat (nat (- i)) else str_nat (nat i))"

text \<open>Python's true division and \<open>math.log10\<close> on floats.\<close>

definition truediv :: "real \<Rightarrow> real \<Rightarrow> py_error + real" where
  "truediv a b = (if b = 0 then Inl ZeroDivisionError else Inr (a / b))"

definition log10 :: "real \<Rightarrow> py_error + real" where
  "log10 x = (if x \<le> 0 then Inl ValueError else Inr (log 10 x))"

subsection \<open>Command line (lines 13--35)\<close>

text \<open>
  \<open>argv\<close> is the command line after tokenisation and type conversion: every option is
  absent or present with a value of its declared type, every flag is present or not.
\<close>

record argv =
  arg_upscale_factor :: "int option"
  arg_batch_size :: "int option"
  arg_test_batch_size :: "int option"
  arg_nb_epochs :: "int option"
  arg_lr :: "real option"
  arg_cuda :: bool
  arg_mps :: bool
  arg_threads :: "int option"
  arg_seed :: "int option"

record namespace =
  upscale_factor :: int
  batch_size :: int
  test_batch_size :: int
  nb_epochs :: int
  lr :: real
  cuda :: bool
  mps :: bool
  threads :: int
  seed :: int

definition default :: "'a \<Rightarrow> 'a option \<Rightarrow> 'a" where
  "default d v = (case v of None \<Rightarrow> d | Some x \<Rightarrow> x)"

text \<open>A missing required option makes argparse print its usage on stderr and exit with 2.\<close>

definition parse_args :: "argv \<Rightarrow> py_error + namespace" where
  "parse_args a =
     (case arg_upscale_factor a of
        None \<Rightarrow> Inl (SystemExit 2)
      | Some u \<Rightarrow> Inr \<lparr>upscale_factor = u,
                      batch_size = default 64 (arg_batch_size a),
                      test_batch_size = default 10 (arg_test_batch_size a),
                      nb_epochs = default 2 (arg_nb_epochs a),
                      lr = default (1 / 100) (arg_lr a),
                      cuda = arg_cuda a,
                      mps = arg_mps a,
                      threads = default 4 (arg_threads a),
                      seed = default 123 (arg_seed a)\<rparr>)"

subsection \<open>The external framework\<close>

type_synonym device = string

text \<open>
  A data loader has a length and yields, on its \<open>k\<close>-th traversal, a list of batches; a
  batch is the pair \<open>(batch[0], batch[1])\<close>.
\<close>

record 't dataloader =
  dl_len :: nat
  dl_iter :: "nat \<Rightarrow> ('t \<times> 't) list"

text \<open>
  \<open>'m\<close> is the module with its parameters and their gradients, \<open>'o\<close> the optimizer's own
  state, \<open>'t\<close> a tensor, \<open>'l\<close> a loss tensor, \<open>'d\<close> a dataset.
\<close>

record ('m, 'o, 't, 'l, 'd) torch =
  cuda_is_available :: bool
  mps_is_available :: bool
  get_training_set :: "int \<Rightarrow> 'd"
  get_test_set :: "int \<Rightarrow> 'd"
  DataLoader :: "'d \<Rightarrow> int \<Rightarrow> int \<Rightarrow> bool \<Rightarrow> 't dataloader"
  Net :: "int \<Rightarrow> 'm"
  module_to :: "device \<Rightarrow> 'm \<Rightarrow> 'm"
  Adam :: "'m \<Rightarrow> real \<Rightarrow> 'o"
  tensor_to :: "device \<Rightarrow> 't \<Rightarrow> 't"
  zero_grad :: "'m \<Rightarrow> 'm"
  forward :: "'m \<Rightarrow> 't \<Rightarrow> 't"
  criterion :: "'t \<Rightarrow> 't \<Rightarrow> 'l"
  item :: "'l \<Rightarrow> real"
  backward :: "'l \<Rightarrow> 'm \<Rightarrow> 'm"
  step :: "'o \<Rightarrow> 'm \<Rightarrow> 'o \<times> 'm"

subsection \<open>Events and the script's state\<close>

datatype 'm event =
    Print string
  | Print_opt namespace
  | Print_batch int nat nat real
  | Print_epoch int real
  | Print_psnr real
  | Manual_seed int
  | Get_training_set int
  | Get_test_set int
  | To_device device
  | Zero_grad
  | Model_call bool
  | Criterion
  | Item real
  | Backward
  | Optimizer_step
  | Torch_save 'm string

text \<open>
  \<open>Print_batch epoch iteration total loss\<close>, \<open>Print_epoch epoch avg\<close> and \<open>Print_psnr avg\<close>
  are the three formatted lines, holding the values handed to the \<open>.4f\<close> format;
  \<open>Model_call g\<close> is a call \<open>model(input)\<close> made while gradient tracking is \<open>g\<close>.
\<close>

record ('m, 'o, 't) world =
  opt :: namespace
  device :: device
  training_data_loader :: "'t dataloader"
  testing_data_loader :: "'t dataloader"
  model :: 'm
  optimizer :: 'o
  grad_enabled :: bool
  train_pass :: nat
  test_pass :: nat
  trace :: "'m event list"

definition emit :: "'m event \<Rightarrow> ('m, 'o, 't) world \<Rightarrow> ('m, 'o, 't) world" where
  "emit ev w = w\<lparr>trace := trace w @ [ev]\<rparr>"

subsection \<open>Validation and device selection (lines 39--52)\<close>

definition check_devices :: "('m, 'o, 't, 'l, 'd) torch \<Rightarrow> namespace \<Rightarrow> py_error option" where
  "check_devices T ns =
     (if cuda ns \<and> \<not> cuda_is_available T then
        Some (Exception ''No GPU found, please run without --cuda'')
      else if \<not> mps ns \<and> mps_is_available T then
        Some (Exception ''Found mps device, please run with --mps to enable macOS GPU'')
      else None)"

definition select_device :: "('m, 'o, 't, 'l, 'd) torch \<Rightarrow> namespace \<Rightarrow> device" where
  "select_device T ns =
     (let use_mps = mps ns \<and> mps_is_available T
      in if cuda ns then ''cuda'' else if use_mps then ''mps'' else ''cpu'')"

subsection \<open>Datasets, model and optimizer (lines 44--71)\<close>

text \<open>
  \<open>prepare\<close> is the script from \<open>torch.manual_seed\<close> to the construction of the optimizer,
  run after validation has passed; \<open>tr\<close> is what has been recorded so far. Gradient
  tracking is on when the interpreter starts.
\<close>

definition prepare ::
  "('m, 'o, 't, 'l, 'd) torch \<Rightarrow> namespace \<Rightarrow> 'm event list \<Rightarrow> ('m, 'o, 't) world" where
  "prepare T ns tr =
     (let tr = tr @ [Manual_seed (seed ns)];
          dev = select_device T ns;
          tr = tr @ [Print ''===> Loading datasets''];
          train_set = get_training_set T (upscale_factor ns);
          tr = tr @ [Get_training_set (upscale_factor ns)];
          test_set = get_test_set T (upscale_factor ns);
          tr = tr @ [Get_test_set (upscale_factor ns)];
          tdl = DataLoader T train_set (threads ns) (batch_size ns) True;
          vdl = DataLoader T test_set (threads ns) (test_batch_size ns) False;
          tr = tr @ [Print ''===> Building model''];
          m = module_to T dev (Net T (upscale_factor ns));
          ad = Adam T m (lr ns)
      in \<lparr>opt = ns, device = dev, training_data_loader = tdl, testing_data_loader = vdl,
          model = m, optimizer = ad, grad_enabled = True, train_pass = 0, test_pass = 0,
          trace = tr\<rparr>)"

subsection \<open>\<open>train\<close> (lines 74--91)\<close>

text \<open>
  The body of the \<open>for\<close> loop, for the batches still to come: \<open>iteration\<close> is the counter
  of \<open>enumerate(..., 1)\<close>, \<open>epoch_loss\<close> the running total.
\<close>

fun train_loop ::
  "('m, 'o, 't, 'l, 'd) torch \<Rightarrow> int \<Rightarrow> nat \<Rightarrow> ('t \<times> 't) list \<Rightarrow> real \<Rightarrow> ('m, 'o, 't) world
     \<Rightarrow> real \<times> ('m, 'o, 't) world" where
  "train_loop T epoch iteration [] epoch_loss w = (epoch_loss, w)"
| "train_loop T epoch iteration (batch # rest) epoch_loss w =
     (let input = tensor_to T (device w) (fst batch);
          w = emit (To_device (device w)) w;
          target = tensor_to T (device w) (snd batch);
          w = emit (To_device (device w)) w;
          w = emit Zero_grad (w\<lparr>model := zero_grad T (model w)\<rparr>);
          prediction = forward T (model w) input;
          w = emit (Model_call (grad_enabled w)) w;
          loss = criterion T prediction target;
          w = emit Criterion w;
          epoch_loss = epoch_loss + item T loss;
          w = emit (Item (item T loss)) w;
          w = emit Backward (w\<lparr>model := backward T loss (model w)\<rparr>);
          w = emit Optimizer_step
                (w\<lparr>optimizer := fst (step T (optimizer w) (model w)),
                   model := snd (step T (optimizer w) (model w))\<rparr>);
          w = emit (Item (item T loss)) w;
          w = emit (Print_batch epoch iteration (dl_len (training_data_loader w)) (item T loss)) w
      in train_loop T epoch (Suc iteration) rest epoch_loss w)"

definition train ::
  "('m, 'o, 't, 'l, 'd) torch \<Rightarrow> int \<Rightarrow> ('m, 'o, 't) world
     \<Rightarrow> py_error \<times> ('m, 'o, 't) world + ('m, 'o, 't) world" where
  "train T epoch w =
     (let batches = dl_iter (training_data_loader w) (train_pass w);
          w = w\<lparr>train_pass := Suc (train_pass w)\<rparr>;
          (epoch_loss, w) = train_loop T epoch 1 batches 0 w
      in case truediv epoch_loss (real (dl_len (training_data_loader w))) of
           Inl e \<Rightarrow> Inl (e, w)
         | Inr avg \<Rightarrow> Inr (emit (Print_epoch epoch avg) w))"

subsection \<open>\<open>test\<close> (lines 94--104)\<close>

fun test_loop ::
  "('m, 'o, 't, 'l, 'd) torch \<Rightarrow> ('t \<times> 't) list \<Rightarrow> real \<Rightarrow> ('m, 'o, 't) world
     \<Rightarrow> py_error \<times> ('m, 'o, 't) world + real \<times> ('m, 'o, 't) world" where
  "test_loop T [] avg_psnr w = Inr (avg_psnr, w)"
| "test_loop T (batch # rest) avg_psnr w =
     (let input = tensor_to T (device w) (fst batch);
          w = emit (To_device (device w)) w;
          target = tensor_to T (device w) (snd batch);
          w = emit (To_device (device w)) w;
          prediction = forward T (model w) input;
          w = emit (Model_call (grad_enabled w)) w;
          mse = criterion T prediction target;
          w = emit Criterion w;
          w = emit (Item (item T mse)) w
      in case truediv 1 (item T mse) of
           Inl e \<Rightarrow> Inl (e, w)
         | Inr q \<Rightarrow>
             (case log10 q of
                Inl e \<Rightarrow> Inl (e, w)
              | Inr lg \<Rightarrow> test_loop T rest (avg_psnr + 10 * lg) w))"

text \<open>
  \<open>with torch.no_grad()\<close> switches gradient tracking off and restores the previous mode
  when the block is left, also by an exception.
\<close>

definition test ::
  "('m, 'o, 't, 'l, 'd) torch \<Rightarrow> ('m, 'o, 't) world
     \<Rightarrow> py_error \<times> ('m, 'o, 't) world + ('m, 'o, 't) world" where
  "test T w =
     (let prev = grad_enabled w;
          w = w\<lparr>grad_enabled := False\<rparr>;
          batches = dl_iter (testing_data_loader w) (test_pass w);
          w = w\<lparr>test_pass := Suc (test_pass w)\<rparr>
      in case test_loop T batches 0 w of
           Inl (e, w) \<Rightarrow> Inl (e, w\<lparr>grad_enabled := prev\<rparr>)
         | Inr (avg_psnr, w) \<Rightarrow>
             (let w = w\<lparr>grad_enabled := prev\<rparr>
              in case truediv avg_psnr (real (dl_len (testing_data_loader w))) of
                   Inl e \<Rightarrow> Inl (e, w)
                 | Inr avg \<Rightarrow> Inr (emit (Print_psnr avg) w)))"

subsection \<open>\<open>checkpoint\<close> and the epoch loop (lines 107--117)\<close>

definition checkpoint :: "int \<Rightarrow> ('m, 'o, 't) world \<Rightarrow> ('m, 'o, 't) world" where
  "checkpoint epoch w =
     (let model_out_path = ''model_epoch_'' @ str_int epoch @ ''.pth'';
          w = emit (Torch_save (model w) model_out_path) w
      in emit (Print (''Checkpoint saved to '' @ model_out_path)) w)"

fun epochs ::
  "('m, 'o, 't, 'l, 'd) torch \<Rightarrow> int list \<Rightarrow> ('m, 'o, 't) world
     \<Rightarrow> py_error \<times> ('m, 'o, 't) world + ('m, 'o, 't) world" where
  "epochs T [] w = Inr w"
| "epochs T (epoch # rest) w =
     (case train T epoch w of
        Inl x \<Rightarrow> Inl x
      | Inr w \<Rightarrow> (case test T w of Inl x \<Rightarrow> Inl x | Inr w \<Rightarrow> epochs T rest w))"

text \<open>
  The whole script: how the process ends (\<open>None\<close> is a normal end) and what it recorded.
  \<open>range(1, nb_epochs + 1)\<close> is \<open>[1..nb_epochs]\<close>.
\<close>

definition main ::
  "('m, 'o, 't, 'l, 'd) torch \<Rightarrow> argv \<Rightarrow> py_error option \<times> 'm event list" where
  "main T a =
     (case parse_args a of
        Inl e \<Rightarrow> (Some e, [])
      | Inr ns \<Rightarrow>
          (let tr = [Print_opt ns]
           in case check_devices T ns of
                Some e \<Rightarrow> (Some e, tr)
              | None \<Rightarrow>
                  (case epochs T [1..nb_epochs ns] (prepare T ns tr) of
                     Inl (e, w) \<Rightarrow> (Some e, trace w)
                   | Inr w \<Rightarrow> (None, trace (checkpoint (nb_epochs (opt w)) w)))))"

subsection \<open>Reading a run\<close>

text \<open>The state in which a call ended, whether it returned or raised.\<close>

definition final :: "py_error \<times> ('m, 'o, 't) world + ('m, 'o, 't) world \<Rightarrow> ('m, 'o, 't) world" where
  "final r = (case r of Inl (e, w) \<Rightarrow> w | Inr w \<Rightarrow> w)"

text \<open>
  The second set of definitions follows the specification rather than the source; the
  properties below compare the two.

  The steps of the specification's section 4.3 for the batches of one epoch, as events:
  \<open>vs\<close> are the loss values of the batches, \<open>i\<close> the number of the first batch, \<open>n\<close> the
  batch count printed, \<open>g\<close> the gradient mode in which the model is called. The two
  \<open>Item\<close> events are the reads of \<open>loss.item()\<close> for the running total (line 81) and for
  the progress line (line 86).
\<close>

fun spec_train_steps :: "int \<Rightarrow> device \<Rightarrow> bool \<Rightarrow> nat \<Rightarrow> nat \<Rightarrow> real list \<Rightarrow> 'm event list" where
  "spec_train_steps epoch dev g n i [] = []"
| "spec_train_steps epoch dev g n i (v # vs) =
     [To_device dev, To_device dev, Zero_grad, Model_call g, Criterion, Item v, Backward,
      Optimizer_step, Item v, Print_batch epoch i n v]
     @ spec_train_steps epoch dev g n (Suc i) vs"

text \<open>
  The mean-squared error of a batch under a model: the value of
  \<open>criterion(model(input), target).item()\<close> for the batch moved to the device.
\<close>

definition batch_mse :: "('m, 'o, 't, 'l, 'd) torch \<Rightarrow> device \<Rightarrow> 'm \<Rightarrow> 't \<times> 't \<Rightarrow> real" where
  "batch_mse T dev m batch =
     item T (criterion T (forward T m (tensor_to T dev (fst batch))) (tensor_to T dev (snd batch)))"

text \<open>The specification's \<open>psnr_db = 10 * log10(1 / mse)\<close>.\<close>

definition psnr :: "real \<Rightarrow> real" where
  "psnr mse = 10 * log 10 (1 / mse)"

text \<open>
  The steps of the specification's section 4.4 for the batches of one evaluation pass,
  \<open>vs\<close> being their mean-squared errors.
\<close>

fun spec_eval_steps :: "device \<Rightarrow> bool \<Rightarrow> real list \<Rightarrow> 'm event list" where
  "spec_eval_steps dev g [] = []"
| "spec_eval_steps dev g (v # vs) =
     [To_device dev, To_device dev, Model_call g, Criterion, Item v] @ spec_eval_steps dev g vs"

text \<open>
  What an evaluation pass may do: move a tensor to the device, call the model with
  gradient tracking off, evaluate the criterion, read a loss value, print the average.
\<close>

fun eval_event :: "device \<Rightarrow> 'm event \<Rightarrow> bool" where
  "eval_event dev (To_device d) = (d = dev)"
| "eval_event dev (Model_call g) = (\<not> g)"
| "eval_event dev Criterion = True"
| "eval_event dev (Item v) = True"
| "eval_event dev (Print_psnr v) = True"
| "eval_event dev _ = False"

text \<open>
  One epoch of a run that goes through: the training steps and their summary line, then
  the evaluation steps and theirs. \<open>d\<close> holds the loss values of the training batches and
  the mean-squared errors of the evaluation batches, \<open>nt\<close> and \<open>ne\<close> are the lengths of the
  two loaders.
\<close>

definition spec_epoch ::
  "device \<Rightarrow> bool \<Rightarrow> nat \<Rightarrow> nat \<Rightarrow> int \<Rightarrow> real list \<times> real list \<Rightarrow> 'm event list" where
  "spec_epoch dev g nt ne epoch d =
     spec_train_steps epoch dev g nt 1 (fst d)
     @ [Print_epoch epoch (sum_list (fst d) / real nt)]
     @ spec_eval_steps dev False (snd d)
     @ [Print_psnr (sum_list (map psnr (snd d)) / real ne)]"

fun spec_epochs ::
  "device \<Rightarrow> bool \<Rightarrow> nat \<Rightarrow> nat \<Rightarrow> int list \<Rightarrow> (real list \<times> real list) list \<Rightarrow> 'm event list" where
  "spec_epochs dev g nt ne (e # es) (d # ds) = spec_epoch dev g nt ne e d @ spec_epochs dev g nt ne es ds"
| "spec_epochs dev g nt ne _ _ = []"

text \<open>The module-level names that are bound once and never rebound.\<close>

definition same_globals :: "('m, 'o, 't) world \<Rightarrow> ('m, 'o, 't) world \<Rightarrow> bool" where
  "same_globals w w' \<longleftrightarrow>
     opt w' = opt w \<and> device w' = device w
     \<and> training_data_loader w' = training_data_loader w
     \<and> testing_data_loader w' = testing_data_loader w
     \<and> grad_enabled w' = grad_enabled w"

fun is_save :: "'m event \<Rightarrow> bool" where
  "is_save (Torch_save m p) = True"
| "is_save _ = False"

text \<open>What the script records before the first epoch and for the checkpoint.\<close>

definition preamble :: "namespace \<Rightarrow> 'm event list" where
  "preamble ns =
     [Print_opt ns, Manual_seed (seed ns), Print ''===> Loading datasets'',
      Get_training_set (upscale_factor ns), Get_test_set (upscale_factor ns),
      Print ''===> Building model'']"

definition spec_checkpoint :: "'m \<Rightarrow> int \<Rightarrow> 'm event list" where
  "spec_checkpoint m n =
     [Torch_save m (''model_epoch_'' @ str_int n @ ''.pth''),
      Print (''Checkpoint saved to model_epoch_'' @ str_int n @ ''.pth'')]"

text \<open>
  The summary lines of a record tell which passes were completed: a training pass ends
  with the line of line 89, an evaluation pass with the line of line 104.
\<close>

datatype pass = Training int | Evaluation

fun pass_of :: "'m event \<Rightarrow> pass list" where
  "pass_of (Print_epoch e v) = [Training e]"
| "pass_of (Print_psnr v) = [Evaluation]"
| "pass_of _ = []"

definition passes :: "'m event list \<Rightarrow> pass list" where
  "passes evs = concat (map pass_of evs)"

text \<open>The passes of a run through the epochs \<open>es\<close>.\<close>

definition spec_passes :: "int list \<Rightarrow> pass list" where
  "spec_passes es = concat (map (\<lambda>e. [Training e, Evaluation]) es)"

subsection \<open>A small framework to run the script on\<close>

text \<open>
  Tensors and the model are single reals, the model multiplies its input by its weight,
  the criterion is the squared difference, an optimizer step adds one to the weight, and
  a loader yields its dataset one example per batch. The three variants have an empty
  training set, an empty test set, and a test example that the model fits exactly after
  the first epoch.
\<close>

definition example_torch :: "(real, nat, real, real, (real \<times> real) list) torch" where
  "example_torch =
     \<lparr>cuda_is_available = False, mps_is_available = False,
      get_training_set = (\<lambda>uf. [(1, 3), (2, 4)]),
      get_test_set = (\<lambda>uf. [(1, 2), (1, 11 / 10)]),
      DataLoader = (\<lambda>ds workers bs shuffle. \<lparr>dl_len = length ds, dl_iter = (\<lambda>k. ds)\<rparr>),
      Net = (\<lambda>uf. 1),
      module_to = (\<lambda>dev m. m),
      Adam = (\<lambda>m lr. 0),
      tensor_to = (\<lambda>dev t. t),
      zero_grad = (\<lambda>m. m),
      forward = (\<lambda>m x. m * x),
      criterion = (\<lambda>p t. (p - t)\<^sup>2),
      item = (\<lambda>l. l),
      backward = (\<lambda>l m. m),
      step = (\<lambda>st m. (Suc st, m + 1))\<rparr>"

definition example_argv :: "int \<Rightarrow> argv" where
  "example_argv n =
     \<lparr>arg_upscale_factor = Some 3, arg_batch_size = None, arg_test_batch_size = None,
      arg_nb_epochs = Some n, arg_lr = None, arg_cuda = False, arg_mps = False,
      arg_threads = None, arg_seed = None\<rparr>"

definition example_namespace :: "int \<Rightarrow> namespace" where
  "example_namespace n =
     \<lparr>upscale_factor = 3, batch_size = 64, test_batch_size = 10, nb_epochs = n, lr = 1 / 100,
      cuda = False, mps = False, threads = 4, seed = 123\<rparr>"

definition example_world :: "(real, nat, real) world" where
  "example_world = prepare example_torch (example_namespace 1) []"

definition example_empty_train :: "(real, nat, real, real, (real \<times> real) list) torch" where
  "example_empty_train = example_torch\<lparr>get_training_set := (\<lambda>uf. [])\<rparr>"

definition example_empty_test :: "(real, nat, real, real, (real \<times> real) list) torch" where
  "example_empty_test = example_torch\<lparr>get_test_set := (\<lambda>uf. [])\<rparr>"

definition example_zero_mse :: "(real, nat, real, real, (real \<times> real) list) torch" where
  "example_zero_mse = example_torch\<lparr>get_test_set := (\<lambda>uf. [(1, 3)])\<rparr>"

section \<open>Properties\<close>

subsection \<open>Events and the training loop\<close>

lemma emit_simps [simp]:
  "trace (emit ev w) = trace w @ [ev]"
  "opt (emit ev w) = opt w"
  "device (emit ev w) = device w"
  "training_data_loader (emit ev w) = training_data_loader w"
  "testing_data_loader (emit ev w) = testing_data_loader w"
  "model (emit ev w) = model w"
  "optimizer (emit ev w) = optimizer w"
  "grad_enabled (emit ev w) = grad_enabled w"
  "train_pass (emit ev w) = train_pass w"
  "test_pass (emit ev w) = test_pass w"
  by (simp_all add: emit_def)

lemma train_loop_shape:
  "\<exists>vs w'. train_loop T epoch i bs s w = (s + sum_list vs, w') \<and> length vs = length bs
     \<and> trace w' = trace w @ spec_train_steps epoch (device w) (grad_enabled w)
                              (dl_len (training_data_loader w)) i vs
     \<and> opt w' = opt w \<and> device w' = device w
     \<and> training_data_loader w' = training_data_loader w
     \<and> testing_data_loader w' = testing_data_loader w
     \<and> grad_enabled w' = grad_enabled w \<and> train_pass w' = train_pass w
     \<and> test_pass w' = test_pass w"
proof (induction bs arbitrary: i s w)
  case Nil
  show ?case by (rule exI [of _ "[]"]) simp
next
  case (Cons b bs)
  define l where "l = criterion T (forward T (zero_grad T (model w)) (tensor_to T (device w) (fst b))) (tensor_to T (device w) (snd b))"
  define w1 where "w1 = emit (Print_batch epoch i (dl_len (training_data_loader w)) (item T l))
    (emit (Item (item T l)) (emit Optimizer_step
      ((emit Backward ((emit (Item (item T l)) (emit Criterion (emit (Model_call (grad_enabled w))
         (emit Zero_grad ((emit (To_device (device w)) (emit (To_device (device w)) w))
            \<lparr>model := zero_grad T (model w)\<rparr>)))))
          \<lparr>model := backward T l (zero_grad T (model w))\<rparr>))
        \<lparr>optimizer := fst (step T (optimizer w) (backward T l (zero_grad T (model w)))),
          model := snd (step T (optimizer w) (backward T l (zero_grad T (model w))))\<rparr>)))"
  have step: "train_loop T epoch i (b # bs) s w = train_loop T epoch (Suc i) bs (s + item T l) w1"
    by (simp add: Let_def l_def w1_def)
  from Cons.IH [of "Suc i" "s + item T l" w1]
  obtain vs w' where h: "train_loop T epoch (Suc i) bs (s + item T l) w1 = (s + item T l + sum_list vs, w')"
     "length vs = length bs"
     "trace w' = trace w1 @ spec_train_steps epoch (device w1) (grad_enabled w1)
                              (dl_len (training_data_loader w1)) (Suc i) vs"
     "opt w' = opt w1" "device w' = device w1"
     "training_data_loader w' = training_data_loader w1"
     "testing_data_loader w' = testing_data_loader w1"
     "grad_enabled w' = grad_enabled w1" "train_pass w' = train_pass w1"
     "test_pass w' = test_pass w1"
    by blast
  have w1: "trace w1 = trace w @ [To_device (device w), To_device (device w), Zero_grad, Model_call (grad_enabled w), Criterion, Item (item T l), Backward,
      Optimizer_step, Item (item T l), Print_batch epoch i (dl_len (training_data_loader w)) (item T l)]"
    "opt w1 = opt w" "device w1 = device w"
     "training_data_loader w1 = training_data_loader w"
     "testing_data_loader w1 = testing_data_loader w"
     "grad_enabled w1 = grad_enabled w" "train_pass w1 = train_pass w"
     "test_pass w1 = test_pass w"
    by (simp_all add: w1_def)
  have "train_loop T epoch i (b # bs) s w = (s + sum_list (item T l # vs), w')"
    unfolding step h(1) by simp
  moreover have "length (item T l # vs) = length (b # bs)"
    using h(2) by simp
  moreover have "trace w' = trace w @ spec_train_steps epoch (device w) (grad_enabled w)
                              (dl_len (training_data_loader w)) i (item T l # vs)"
    unfolding h(3) w1 by simp
  ultimately show ?case
    using h(4-) w1(2-) by metis
qed

lemma train_result:
  "\<exists>vs w'. length vs = length (dl_iter (training_data_loader w) (train_pass w))
     \<and> train T epoch w =
         (if dl_len (training_data_loader w) = 0 then Inl (ZeroDivisionError, w')
          else Inr (emit (Print_epoch epoch (sum_list vs / real (dl_len (training_data_loader w)))) w'))
     \<and> trace w' = trace w @ spec_train_steps epoch (device w) (grad_enabled w)
                              (dl_len (training_data_loader w)) 1 vs
     \<and> opt w' = opt w \<and> device w' = device w
     \<and> training_data_loader w' = training_data_loader w
     \<and> testing_data_loader w' = testing_data_loader w
     \<and> grad_enabled w' = grad_enabled w \<and> train_pass w' = Suc (train_pass w)
     \<and> test_pass w' = test_pass w"
proof -
  define w0 where "w0 = w\<lparr>train_pass := Suc (train_pass w)\<rparr>"
  define bs where "bs = dl_iter (training_data_loader w) (train_pass w)"
  from train_loop_shape [of T epoch 1 bs 0 w0]
  obtain vs w' where h: "train_loop T epoch 1 bs 0 w0 = (0 + sum_list vs, w')"
    "length vs = length bs"
    "trace w' = trace w0 @ spec_train_steps epoch (device w0) (grad_enabled w0)
                              (dl_len (training_data_loader w0)) 1 vs"
    "opt w' = opt w0" "device w' = device w0"
    "training_data_loader w' = training_data_loader w0"
    "testing_data_loader w' = testing_data_loader w0"
    "grad_enabled w' = grad_enabled w0" "train_pass w' = train_pass w0"
    "test_pass w' = test_pass w0"
    by blast
  have t: "train T epoch w =
         (if dl_len (training_data_loader w) = 0 then Inl (ZeroDivisionError, w')
          else Inr (emit (Print_epoch epoch (sum_list vs / real (dl_len (training_data_loader w)))) w'))"
    using h(1,6) by (simp add: train_def Let_def truediv_def w0_def bs_def)
  show ?thesis
    apply (rule exI [of _ vs])
    apply (rule exI [of _ w'])
    using h(2-) t by (simp add: w0_def bs_def)
qed

subsection \<open>The evaluation loop\<close>

lemma eval_event_steps: "list_all (eval_event dev) (spec_eval_steps dev False ms)"
  by (induction ms) simp_all

lemma test_loop_ok:
  "\<forall>b\<in>set bs. 0 < batch_mse T (device w) (model w) b \<Longrightarrow>
   test_loop T bs s w =
     Inr (s + sum_list (map (\<lambda>b. psnr (batch_mse T (device w) (model w) b)) bs),
          w\<lparr>trace := trace w @ spec_eval_steps (device w) (grad_enabled w)
                                 (map (batch_mse T (device w) (model w)) bs)\<rparr>)"
proof (induction bs arbitrary: s w)
  case Nil
  show ?case by simp
next
  case (Cons b bs)
  define v where "v = batch_mse T (device w) (model w) b"
  define w1 where "w1 = w\<lparr>trace := trace w @ [To_device (device w), To_device (device w),
     Model_call (grad_enabled w), Criterion, Item v]\<rparr>"
  have pos: "0 < v" using Cons.prems by (simp add: v_def)
  have step: "test_loop T (b # bs) s w = test_loop T bs (s + psnr v) w1"
    using pos by (simp add: Let_def emit_def truediv_def log10_def psnr_def v_def w1_def batch_mse_def)
  have w1: "device w1 = device w" "model w1 = model w" "grad_enabled w1 = grad_enabled w"
    by (simp_all add: w1_def)
  have "\<forall>b\<in>set bs. 0 < batch_mse T (device w1) (model w1) b"
    using Cons.prems by (simp add: w1)
  from Cons.IH [OF this, of "s + psnr v"]
  show ?case
    unfolding step by (simp add: w1 v_def w1_def add.assoc)
qed

lemma test_loop_Inr:
  "test_loop T bs s w = Inr r \<Longrightarrow> \<forall>b\<in>set bs. 0 < batch_mse T (device w) (model w) b"
proof (induction bs arbitrary: s w)
  case Nil
  show ?case by simp
next
  case (Cons b bs)
  define v where "v = batch_mse T (device w) (model w) b"
  define w1 where "w1 = w\<lparr>trace := trace w @ [To_device (device w), To_device (device w),
     Model_call (grad_enabled w), Criterion, Item v]\<rparr>"
  have w1: "device w1 = device w" "model w1 = model w" "grad_enabled w1 = grad_enabled w"
    by (simp_all add: w1_def)
  have pos: "0 < v"
  proof (rule ccontr)
    assume "\<not> 0 < v"
    then have "\<exists>x. test_loop T (b # bs) s w = Inl x"
      by (simp add: Let_def emit_def truediv_def log10_def v_def batch_mse_def not_less
            divide_le_0_iff)
    with Cons.prems show False by auto
  qed
  have step: "test_loop T (b # bs) s w = test_loop T bs (s + psnr v) w1"
    using pos by (simp add: Let_def emit_def truediv_def log10_def psnr_def v_def w1_def batch_mse_def)
  with Cons.prems have "test_loop T bs (s + psnr v) w1 = Inr r" by simp
  from Cons.IH [OF this] show ?case
    using pos by (simp add: w1 v_def)
qed

lemma test_loop_Inl:
  "test_loop T bs s w = Inl (e, w') \<Longrightarrow>
   \<exists>ms. w' = w\<lparr>trace := trace w @ spec_eval_steps (device w) (grad_enabled w) ms\<rparr>
      \<and> (e = ZeroDivisionError \<or> e = ValueError)"
proof (induction bs arbitrary: s w)
  case Nil
  then show ?case by simp
next
  case (Cons b bs)
  define v where "v = batch_mse T (device w) (model w) b"
  define w1 where "w1 = w\<lparr>trace := trace w @ [To_device (device w), To_device (device w),
     Model_call (grad_enabled w), Criterion, Item v]\<rparr>"
  have w1: "device w1 = device w" "model w1 = model w" "grad_enabled w1 = grad_enabled w"
    by (simp_all add: w1_def)
  have w1s: "w1 = w\<lparr>trace := trace w @ spec_eval_steps (device w) (grad_enabled w) [v]\<rparr>"
    by (simp add: w1_def)
  show ?case
  proof (cases "0 < v")
    case True
    then have "test_loop T (b # bs) s w = test_loop T bs (s + psnr v) w1"
      by (simp add: Let_def emit_def truediv_def log10_def psnr_def v_def w1_def batch_mse_def)
    with Cons.prems have "test_loop T bs (s + psnr v) w1 = Inl (e, w')" by simp
    from Cons.IH [OF this] obtain ms where
      "w' = w1\<lparr>trace := trace w1 @ spec_eval_steps (device w1) (grad_enabled w1) ms\<rparr>"
      "e = ZeroDivisionError \<or> e = ValueError" by blast
    then have "w' = w\<lparr>trace := trace w @ spec_eval_steps (device w) (grad_enabled w) (v # ms)\<rparr>
      \<and> (e = ZeroDivisionError \<or> e = ValueError)"
      by (simp add: w1 w1_def)
    then show ?thesis by blast
  next
    case False
    then have "test_loop T (b # bs) s w =
        Inl (if v = 0 then ZeroDivisionError else ValueError, w1)"
      by (simp add: Let_def emit_def truediv_def log10_def v_def w1_def batch_mse_def not_less
            divide_le_0_iff)
    with Cons.prems have "w' = w1" "e = ZeroDivisionError \<or> e = ValueError"
      by (auto split: if_splits)
    then show ?thesis using w1s by blast
  qed
qed

lemma test_loop_zero:
  "\<forall>b\<in>set bs. 0 \<le> batch_mse T (device w) (model w) b \<Longrightarrow>
   \<exists>b\<in>set bs. batch_mse T (device w) (model w) b = 0 \<Longrightarrow>
   \<exists>w'. test_loop T bs s w = Inl (ZeroDivisionError, w')"
proof (induction bs arbitrary: s w)
  case Nil
  then show ?case by simp
next
  case (Cons b bs)
  define v where "v = batch_mse T (device w) (model w) b"
  define w1 where "w1 = w\<lparr>trace := trace w @ [To_device (device w), To_device (device w),
     Model_call (grad_enabled w), Criterion, Item v]\<rparr>"
  have w1: "device w1 = device w" "model w1 = model w" "grad_enabled w1 = grad_enabled w"
    by (simp_all add: w1_def)
  show ?case
  proof (cases "v = 0")
    case True
    then have "test_loop T (b # bs) s w = Inl (ZeroDivisionError, w1)"
      by (simp add: Let_def emit_def truediv_def v_def w1_def batch_mse_def)
    then show ?thesis by blast
  next
    case False
    with Cons.prems(1) have pos: "0 < v" by (simp add: v_def)
    then have step: "test_loop T (b # bs) s w = test_loop T bs (s + psnr v) w1"
      by (simp add: Let_def emit_def truediv_def log10_def psnr_def v_def w1_def batch_mse_def)
    have "\<forall>b\<in>set bs. 0 \<le> batch_mse T (device w1) (model w1) b"
      using Cons.prems(1) by (simp add: w1)
    moreover have "\<exists>b\<in>set bs. batch_mse T (device w1) (model w1) b = 0"
      using Cons.prems(2) False by (auto simp: w1 v_def)
    ultimately show ?thesis
      unfolding step by (rule Cons.IH)
  qed
qed

lemma test_unfold:
  "test T w =
     (case test_loop T (dl_iter (testing_data_loader w) (test_pass w)) 0
             (w\<lparr>grad_enabled := False, test_pass := Suc (test_pass w)\<rparr>) of
        Inl (e, w1) \<Rightarrow> Inl (e, w1\<lparr>grad_enabled := grad_enabled w\<rparr>)
      | Inr (avg_psnr, w1) \<Rightarrow>
          (case truediv avg_psnr (real (dl_len (testing_data_loader w1))) of
             Inl e \<Rightarrow> Inl (e, w1\<lparr>grad_enabled := grad_enabled w\<rparr>)
           | Inr avg \<Rightarrow> Inr (emit (Print_psnr avg) (w1\<lparr>grad_enabled := grad_enabled w\<rparr>))))"
  by (simp add: test_def Let_def split: sum.splits prod.splits)

lemma test_ok:
  assumes "\<forall>b\<in>set (dl_iter (testing_data_loader w) (test_pass w)).
             0 < batch_mse T (device w) (model w) b"
  shows "test T w =
     (let ms = map (batch_mse T (device w) (model w)) (dl_iter (testing_data_loader w) (test_pass w));
          w' = w\<lparr>test_pass := Suc (test_pass w),
                 trace := trace w @ spec_eval_steps (device w) False ms\<rparr>
      in if dl_len (testing_data_loader w) = 0 then Inl (ZeroDivisionError, w')
         else Inr (emit (Print_psnr (sum_list (map psnr ms) / real (dl_len (testing_data_loader w)))) w'))"
proof -
  define w0 where "w0 = w\<lparr>grad_enabled := False, test_pass := Suc (test_pass w)\<rparr>"
  define bs where "bs = dl_iter (testing_data_loader w) (test_pass w)"
  have w0: "device w0 = device w" "model w0 = model w" "grad_enabled w0 = False"
    "trace w0 = trace w"
    by (simp_all add: w0_def)
  have "\<forall>b\<in>set bs. 0 < batch_mse T (device w0) (model w0) b"
    using assms by (simp add: w0 bs_def)
  from test_loop_ok [OF this, of 0]
  have l: "test_loop T bs 0 w0 =
     Inr (sum_list (map (\<lambda>b. psnr (batch_mse T (device w) (model w) b)) bs),
          w0\<lparr>trace := trace w @ spec_eval_steps (device w) False
                                 (map (batch_mse T (device w) (model w)) bs)\<rparr>)"
    by (simp add: w0)
  have "test T w = (case test_loop T bs 0 w0 of
           Inl (e, w1) \<Rightarrow> Inl (e, w1\<lparr>grad_enabled := grad_enabled w\<rparr>)
         | Inr (avg_psnr, w1) \<Rightarrow>
             (case truediv avg_psnr (real (dl_len (testing_data_loader w1))) of
                Inl e \<Rightarrow> Inl (e, w1\<lparr>grad_enabled := grad_enabled w\<rparr>)
              | Inr avg \<Rightarrow> Inr (emit (Print_psnr avg) (w1\<lparr>grad_enabled := grad_enabled w\<rparr>))))"
    unfolding w0_def bs_def by (rule test_unfold)
  then show ?thesis
    unfolding l by (simp add: Let_def truediv_def w0_def bs_def comp_def)
qed

lemma test_Inr:
  assumes "test T w = Inr w'"
  shows "(\<forall>b\<in>set (dl_iter (testing_data_loader w) (test_pass w)).
             0 < batch_mse T (device w) (model w) b) \<and> dl_len (testing_data_loader w) \<noteq> 0"
proof -
  define w0 where "w0 = w\<lparr>grad_enabled := False, test_pass := Suc (test_pass w)\<rparr>"
  define bs where "bs = dl_iter (testing_data_loader w) (test_pass w)"
  have w0: "device w0 = device w" "model w0 = model w" "grad_enabled w0 = False"
    "trace w0 = trace w"
    by (simp_all add: w0_def)
  have t: "test T w = (case test_loop T bs 0 w0 of
           Inl (e, w1) \<Rightarrow> Inl (e, w1\<lparr>grad_enabled := grad_enabled w\<rparr>)
         | Inr (avg_psnr, w1) \<Rightarrow>
             (case truediv avg_psnr (real (dl_len (testing_data_loader w1))) of
                Inl e \<Rightarrow> Inl (e, w1\<lparr>grad_enabled := grad_enabled w\<rparr>)
              | Inr avg \<Rightarrow> Inr (emit (Print_psnr avg) (w1\<lparr>grad_enabled := grad_enabled w\<rparr>))))"
    unfolding w0_def bs_def by (rule test_unfold)
  with assms obtain r where r: "test_loop T bs 0 w0 = Inr r"
    by (auto split: sum.splits)
  from test_loop_Inr [OF this] have pos: "\<forall>b\<in>set bs. 0 < batch_mse T (device w) (model w) b"
    by (simp add: w0)
  then have "\<forall>b\<in>set (dl_iter (testing_data_loader w) (test_pass w)).
             0 < batch_mse T (device w) (model w) b" by (simp add: bs_def)
  from test_ok [OF this] assms have "dl_len (testing_data_loader w) \<noteq> 0"
    by (auto simp: Let_def split: if_splits)
  with pos show ?thesis by (simp add: bs_def)
qed

lemma test_frame:
  "\<exists>evs. final (test T w) = w\<lparr>test_pass := Suc (test_pass w), trace := trace w @ evs\<rparr>
     \<and> list_all (eval_event (device w)) evs"
proof -
  define w0 where "w0 = w\<lparr>grad_enabled := False, test_pass := Suc (test_pass w)\<rparr>"
  define bs where "bs = dl_iter (testing_data_loader w) (test_pass w)"
  have w0: "device w0 = device w" "model w0 = model w" "grad_enabled w0 = False"
    "trace w0 = trace w"
    by (simp_all add: w0_def)
  have t: "test T w = (case test_loop T bs 0 w0 of
           Inl (e, w1) \<Rightarrow> Inl (e, w1\<lparr>grad_enabled := grad_enabled w\<rparr>)
         | Inr (avg_psnr, w1) \<Rightarrow>
             (case truediv avg_psnr (real (dl_len (testing_data_loader w1))) of
                Inl e \<Rightarrow> Inl (e, w1\<lparr>grad_enabled := grad_enabled w\<rparr>)
              | Inr avg \<Rightarrow> Inr (emit (Print_psnr avg) (w1\<lparr>grad_enabled := grad_enabled w\<rparr>))))"
    unfolding w0_def bs_def by (rule test_unfold)
  show ?thesis
  proof (cases "test_loop T bs 0 w0")
    case (Inl x)
    obtain e w' where x: "x = (e, w')" by (cases x)
    from test_loop_Inl [OF Inl [unfolded x]] obtain ms where
      "w' = w0\<lparr>trace := trace w0 @ spec_eval_steps (device w0) (grad_enabled w0) ms\<rparr>" by blast
    then have "final (test T w) = w\<lparr>test_pass := Suc (test_pass w),
        trace := trace w @ spec_eval_steps (device w) False ms\<rparr>"
      unfolding t Inl x by (simp add: final_def w0_def)
    then show ?thesis using eval_event_steps by blast
  next
    case (Inr r)
    from test_loop_Inr [OF Inr] have "\<forall>b\<in>set (dl_iter (testing_data_loader w) (test_pass w)).
             0 < batch_mse T (device w) (model w) b" by (simp add: w0 bs_def)
    from test_ok [OF this]
    show ?thesis
      apply (simp add: Let_def final_def emit_def)
      apply (intro conjI impI)
       apply (rule exI [of _ "spec_eval_steps (device w) False (map (batch_mse T (device w) (model w)) (dl_iter (testing_data_loader w) (test_pass w)))"])
       apply (simp add: eval_event_steps)
      apply (rule exI [of _ "spec_eval_steps (device w) False (map (batch_mse T (device w) (model w)) (dl_iter (testing_data_loader w) (test_pass w))) @ [Print_psnr (sum_list (map psnr (map (batch_mse T (device w) (model w)) (dl_iter (testing_data_loader w) (test_pass w)))) / real (dl_len (testing_data_loader w)))]"])
      apply (simp add: eval_event_steps)
      done
  qed
qed

subsection \<open>The epoch loop\<close>

lemma train_Inr:
  assumes "train T epoch w = Inr w1"
  shows "\<exists>vs. length vs = length (dl_iter (training_data_loader w) (train_pass w))
     \<and> trace w1 = trace w @ spec_train_steps epoch (device w) (grad_enabled w)
                              (dl_len (training_data_loader w)) 1 vs
                   @ [Print_epoch epoch (sum_list vs / real (dl_len (training_data_loader w)))]
     \<and> same_globals w w1 \<and> train_pass w1 = Suc (train_pass w) \<and> test_pass w1 = test_pass w
     \<and> dl_len (training_data_loader w) \<noteq> 0"
proof -
  from train_result [of w T epoch] obtain vs w' where h:
    "length vs = length (dl_iter (training_data_loader w) (train_pass w))"
    "train T epoch w =
         (if dl_len (training_data_loader w) = 0 then Inl (ZeroDivisionError, w')
          else Inr (emit (Print_epoch epoch (sum_list vs / real (dl_len (training_data_loader w)))) w'))"
    "trace w' = trace w @ spec_train_steps epoch (device w) (grad_enabled w)
                              (dl_len (training_data_loader w)) 1 vs"
    "opt w' = opt w" "device w' = device w"
    "training_data_loader w' = training_data_loader w"
    "testing_data_loader w' = testing_data_loader w"
    "grad_enabled w' = grad_enabled w" "train_pass w' = Suc (train_pass w)"
    "test_pass w' = test_pass w"
    by blast
  from h(2) assms have n: "dl_len (training_data_loader w) \<noteq> 0"
    and w1: "w1 = emit (Print_epoch epoch (sum_list vs / real (dl_len (training_data_loader w)))) w'"
    by (auto split: if_splits)
  show ?thesis
    apply (rule exI [of _ vs])
    using h(1) h(3-) n by (simp add: w1 same_globals_def)
qed

lemma test_Inr_shape:
  assumes "test T w = Inr w'"
  shows "\<exists>ms. length ms = length (dl_iter (testing_data_loader w) (test_pass w))
     \<and> w' = w\<lparr>test_pass := Suc (test_pass w),
              trace := trace w @ spec_eval_steps (device w) False ms
                       @ [Print_psnr (sum_list (map psnr ms) / real (dl_len (testing_data_loader w)))]\<rparr>"
proof -
  from test_Inr [OF assms] have pos: "\<forall>b\<in>set (dl_iter (testing_data_loader w) (test_pass w)).
             0 < batch_mse T (device w) (model w) b" and n: "dl_len (testing_data_loader w) \<noteq> 0"
    by simp_all
  from test_ok [OF pos] assms n
  have "w' = w\<lparr>test_pass := Suc (test_pass w),
              trace := trace w @ spec_eval_steps (device w) False
                 (map (batch_mse T (device w) (model w)) (dl_iter (testing_data_loader w) (test_pass w)))
                       @ [Print_psnr (sum_list (map psnr (map (batch_mse T (device w) (model w)) (dl_iter (testing_data_loader w) (test_pass w)))) / real (dl_len (testing_data_loader w)))]\<rparr>"
    by (simp add: Let_def emit_def)
  then show ?thesis
    by (intro exI [of _ "map (batch_mse T (device w) (model w)) (dl_iter (testing_data_loader w) (test_pass w))"]) simp
qed

lemma epochs_Inr_shape:
  "epochs T es w = Inr w' \<Longrightarrow>
   \<exists>ds. length ds = length es
      \<and> (\<forall>k < length es.
            length (fst (ds ! k)) = length (dl_iter (training_data_loader w) (train_pass w + k))
          \<and> length (snd (ds ! k)) = length (dl_iter (testing_data_loader w) (test_pass w + k)))
      \<and> trace w' = trace w @ spec_epochs (device w) (grad_enabled w)
                      (dl_len (training_data_loader w)) (dl_len (testing_data_loader w)) es ds
      \<and> same_globals w w'
      \<and> train_pass w' = train_pass w + length es \<and> test_pass w' = test_pass w + length es"
proof (induction es arbitrary: w)
  case Nil
  then show ?case by (intro exI [of _ "[]"]) (simp add: same_globals_def)
next
  case (Cons e es)
  from Cons.prems obtain w1 where t: "train T e w = Inr w1"
    by (auto split: sum.splits)
  with Cons.prems obtain w2 where v: "test T w1 = Inr w2"
    by (auto split: sum.splits)
  with t Cons.prems have r: "epochs T es w2 = Inr w'" by simp
  from train_Inr [OF t] obtain vs where tr:
    "length vs = length (dl_iter (training_data_loader w) (train_pass w))"
    "trace w1 = trace w @ spec_train_steps e (device w) (grad_enabled w)
                              (dl_len (training_data_loader w)) 1 vs
                   @ [Print_epoch e (sum_list vs / real (dl_len (training_data_loader w)))]"
    "same_globals w w1" "train_pass w1 = Suc (train_pass w)" "test_pass w1 = test_pass w"
    by blast
  from test_Inr_shape [OF v] obtain ms where ev:
    "length ms = length (dl_iter (testing_data_loader w1) (test_pass w1))"
    "w2 = w1\<lparr>test_pass := Suc (test_pass w1),
              trace := trace w1 @ spec_eval_steps (device w1) False ms
                       @ [Print_psnr (sum_list (map psnr ms) / real (dl_len (testing_data_loader w1)))]\<rparr>"
    by blast
  have g2: "same_globals w w2" "train_pass w2 = Suc (train_pass w)" "test_pass w2 = Suc (test_pass w)"
    using tr(3-) by (simp_all add: ev(2) same_globals_def)
  have t2: "trace w2 = trace w @ spec_epoch (device w) (grad_enabled w)
                      (dl_len (training_data_loader w)) (dl_len (testing_data_loader w)) e (vs, ms)"
    using tr(2,3) by (simp add: ev(2) spec_epoch_def same_globals_def)
  from Cons.IH [OF r] obtain ds where ih:
    "length ds = length es"
    "\<forall>k < length es.
            length (fst (ds ! k)) = length (dl_iter (training_data_loader w2) (train_pass w2 + k))
          \<and> length (snd (ds ! k)) = length (dl_iter (testing_data_loader w2) (test_pass w2 + k))"
    "trace w' = trace w2 @ spec_epochs (device w2) (grad_enabled w2)
                      (dl_len (training_data_loader w2)) (dl_len (testing_data_loader w2)) es ds"
    "same_globals w2 w'"
    "train_pass w' = train_pass w2 + length es" "test_pass w' = test_pass w2 + length es"
    by blast
  have eq: "device w2 = device w" "grad_enabled w2 = grad_enabled w"
    "training_data_loader w2 = training_data_loader w"
    "testing_data_loader w2 = testing_data_loader w"
    "testing_data_loader w1 = testing_data_loader w"
    using g2(1) tr(3) by (simp_all add: same_globals_def)
  have "length ((vs, ms) # ds) = length (e # es)" using ih(1) by simp
  moreover have "\<forall>k < length (e # es).
            length (fst (((vs, ms) # ds) ! k)) = length (dl_iter (training_data_loader w) (train_pass w + k))
          \<and> length (snd (((vs, ms) # ds) ! k)) = length (dl_iter (testing_data_loader w) (test_pass w + k))"
  proof (intro allI impI)
    fix k assume k: "k < length (e # es)"
    show "length (fst (((vs, ms) # ds) ! k)) = length (dl_iter (training_data_loader w) (train_pass w + k))
          \<and> length (snd (((vs, ms) # ds) ! k)) = length (dl_iter (testing_data_loader w) (test_pass w + k))"
    proof (cases k)
      case 0
      then show ?thesis using tr(1,5) ev(1) by (simp add: eq)
    next
      case (Suc j)
      with k have "j < length es" by simp
      with ih(2) show ?thesis by (simp add: Suc eq g2)
    qed
  qed
  moreover have "trace w' = trace w @ spec_epochs (device w) (grad_enabled w)
                      (dl_len (training_data_loader w)) (dl_len (testing_data_loader w)) (e # es) ((vs, ms) # ds)"
    by (simp add: ih(3) t2 eq)
  moreover have "same_globals w w'"
    using g2(1) ih(4) by (simp add: same_globals_def)
  moreover have "train_pass w' = train_pass w + length (e # es)" "test_pass w' = test_pass w + length (e # es)"
    by (simp_all add: ih(5,6) g2)
  ultimately show ?case by blast
qed

subsection \<open>The script\<close>

lemma prepare_simps:
  "trace (prepare T ns [Print_opt ns]) = preamble ns"
  "opt (prepare T ns tr) = ns"
  "device (prepare T ns tr) = select_device T ns"
  "grad_enabled (prepare T ns tr) = True"
  "train_pass (prepare T ns tr) = 0"
  "test_pass (prepare T ns tr) = 0"
  "model (prepare T ns tr) = module_to T (select_device T ns) (Net T (upscale_factor ns))"
  "training_data_loader (prepare T ns tr) =
     DataLoader T (get_training_set T (upscale_factor ns)) (threads ns) (batch_size ns) True"
  "testing_data_loader (prepare T ns tr) =
     DataLoader T (get_test_set T (upscale_factor ns)) (threads ns) (test_batch_size ns) False"
  by (simp_all add: prepare_def Let_def preamble_def)

lemma no_save_train_steps: "filter is_save (spec_train_steps epoch dev g n i vs) = []"
  by (induction vs arbitrary: i) simp_all

lemma no_save_eval: "list_all (eval_event dev) evs \<Longrightarrow> filter is_save evs = []"
proof (induction evs)
  case Nil
  show ?case by simp
next
  case (Cons ev evs)
  then show ?case by (cases ev) simp_all
qed

lemma train_no_save: "filter is_save (trace (final (train T epoch w))) = filter is_save (trace w)"
proof -
  from train_result [of w T epoch] obtain vs w' where h:
    "train T epoch w =
         (if dl_len (training_data_loader w) = 0 then Inl (ZeroDivisionError, w')
          else Inr (emit (Print_epoch epoch (sum_list vs / real (dl_len (training_data_loader w)))) w'))"
    "trace w' = trace w @ spec_train_steps epoch (device w) (grad_enabled w)
                              (dl_len (training_data_loader w)) 1 vs"
    by blast
  show ?thesis
    unfolding h(1) by (simp add: final_def h(2) no_save_train_steps)
qed

lemma test_no_save: "filter is_save (trace (final (test T w))) = filter is_save (trace w)"
proof -
  from test_frame [of T w] obtain evs where
    "final (test T w) = w\<lparr>test_pass := Suc (test_pass w), trace := trace w @ evs\<rparr>"
    "list_all (eval_event (device w)) evs" by blast
  then show ?thesis by (simp add: no_save_eval)
qed

lemma epochs_no_save: "filter is_save (trace (final (epochs T es w))) = filter is_save (trace w)"
proof (induction es arbitrary: w)
  case Nil
  show ?case by (simp add: final_def)
next
  case (Cons e es)
  show ?case
  proof (cases "train T e w")
    case (Inl x)
    then have "final (epochs T (e # es) w) = final (train T e w)" by (simp add: final_def)
    then show ?thesis by (simp add: train_no_save)
  next
    case (Inr w1)
    then have w1: "filter is_save (trace w1) = filter is_save (trace w)"
      using train_no_save [of T e w] by (simp add: final_def)
    show ?thesis
    proof (cases "test T w1")
      case (Inl x)
      then have "final (epochs T (e # es) w) = final (test T w1)"
        using Inr by (simp add: final_def)
      then show ?thesis by (simp add: test_no_save w1)
    next
      case (Inr w2)
      then have w2: "filter is_save (trace w2) = filter is_save (trace w1)"
        using test_no_save [of T w1] by (simp add: final_def)
      have "epochs T (e # es) w = epochs T es w2"
        using \<open>train T e w = Inr w1\<close> Inr by simp
      then show ?thesis by (simp add: Cons.IH w1 w2)
    qed
  qed
qed

lemma epochs_append:
  "epochs T (xs @ ys) w = (case epochs T xs w of Inl x \<Rightarrow> Inl x | Inr w' \<Rightarrow> epochs T ys w')"
  by (induction xs arbitrary: w) (simp_all split: sum.splits)

lemma main_unfold:
  assumes "parse_args a = Inr ns" "check_devices T ns = None"
  shows "main T a =
     (case epochs T [1..nb_epochs ns] (prepare T ns [Print_opt ns]) of
        Inl (e, w) \<Rightarrow> (Some e, trace w)
      | Inr w \<Rightarrow> (None, trace w @ spec_checkpoint (model w) (nb_epochs (opt w))))"
  using assms
  by (simp add: main_def Let_def checkpoint_def spec_checkpoint_def split: sum.splits prod.splits)

lemma main_None:
  assumes "fst (main T a) = None"
  shows "\<exists>ns w. parse_args a = Inr ns \<and> check_devices T ns = None
     \<and> epochs T [1..nb_epochs ns] (prepare T ns [Print_opt ns]) = Inr w
     \<and> snd (main T a) = trace w @ spec_checkpoint (model w) (nb_epochs ns)"
proof -
  from assms obtain ns where ns: "parse_args a = Inr ns"
    by (cases "parse_args a") (simp_all add: main_def)
  with assms have cd: "check_devices T ns = None"
    by (cases "check_devices T ns") (simp_all add: main_def Let_def)
  note m = main_unfold [OF ns cd]
  with assms obtain w where w: "epochs T [1..nb_epochs ns] (prepare T ns [Print_opt ns]) = Inr w"
    by (cases "epochs T [1..nb_epochs ns] (prepare T ns [Print_opt ns])") (auto split: prod.splits)
  from epochs_Inr_shape [OF w] have "same_globals (prepare T ns [Print_opt ns]) w" by blast
  then have "opt w = ns" by (simp add: same_globals_def prepare_simps)
  with m w have "snd (main T a) = trace w @ spec_checkpoint (model w) (nb_epochs ns)" by simp
  with ns cd w show ?thesis by blast
qed

lemma main_Some_no_save:
  assumes "fst (main T a) \<noteq> None"
  shows "filter is_save (snd (main T a)) = []"
proof (cases "parse_args a")
  case (Inl e)
  then show ?thesis by (simp add: main_def)
next
  case (Inr ns)
  show ?thesis
  proof (cases "check_devices T ns")
    case (Some e)
    with Inr show ?thesis by (simp add: main_def Let_def)
  next
    case None
    note m = main_unfold [OF Inr None]
    show ?thesis
    proof (cases "epochs T [1..nb_epochs ns] (prepare T ns [Print_opt ns])")
      case (Inl x)
      obtain e w where x: "x = (e, w)" by (cases x)
      have "filter is_save (trace (final (epochs T [1..nb_epochs ns] (prepare T ns [Print_opt ns]))))
          = filter is_save (preamble ns)"
        by (simp add: epochs_no_save prepare_simps)
      then have "filter is_save (trace w) = []"
        by (simp add: Inl x final_def preamble_def)
      then show ?thesis by (simp add: m Inl x)
    next
      case (Inr w)
      with m assms show ?thesis by simp
    qed
  qed
qed

subsection \<open>Evaluating the examples\<close>

lemmas example_defs =
  example_torch_def example_argv_def example_namespace_def example_world_def
  parse_args_def default_def check_devices_def select_device_def prepare_def

lemma log_10_100: "log 10 100 = 2"
proof -
  have "(100::real) = 10 ^ 2" by simp
  then show ?thesis by (simp only: log_pow_cancel)
qed

subsection \<open>Configuration\<close>

text \<open>
  C1. Once validation has passed, the device the script resolves is one of \<open>cpu\<close>,
  \<open>cuda\<close> and \<open>mps\<close>, by the precedence: \<open>--cuda\<close> requested gives \<open>cuda\<close>; otherwise
  \<open>--mps\<close> requested and the platform accelerator available gives \<open>mps\<close>; otherwise
  \<open>cpu\<close>.
\<close>

theorem device_precedence:
  assumes "check_devices T ns = None"
  shows "device (prepare T ns tr) \<in> {''cpu'', ''cuda'', ''mps''}
     \<and> device (prepare T ns tr) =
         (if cuda ns then ''cuda'' else if mps ns \<and> mps_is_available T then ''mps'' else ''cpu'')"
  by (simp add: prepare_simps select_device_def)

theorem device_precedence_witness:
  "check_devices (example_torch\<lparr>mps_is_available := True\<rparr>) (example_namespace 1\<lparr>mps := True\<rparr>) = None
   \<and> device (prepare (example_torch\<lparr>mps_is_available := True\<rparr>) (example_namespace 1\<lparr>mps := True\<rparr>) [])
       = ''mps''"
proof -
  have h: "check_devices (example_torch\<lparr>mps_is_available := True\<rparr>)
             (example_namespace 1\<lparr>mps := True\<rparr>) = None"
    by (simp add: check_devices_def example_torch_def example_namespace_def)
  from device_precedence [OF h, of "[]"] h show ?thesis
    by (simp add: example_torch_def example_namespace_def)
qed

text \<open>
  C2. When \<open>--cuda\<close> is given and no GPU is available, or a platform accelerator is
  available and \<open>--mps\<close> is not given, or \<open>--upscale_factor\<close> is missing, the process
  ends with an error and a non-zero status, having recorded nothing but, at most, the echo
  of its options: no dataset has been loaded and the dataset-loading line has not been
  printed.
\<close>

theorem invalid_configuration_is_fatal:
  assumes "(arg_cuda a \<and> \<not> cuda_is_available T) \<or> (mps_is_available T \<and> \<not> arg_mps a)
           \<or> arg_upscale_factor a = None"
  shows "fst (main T a) \<noteq> None \<and> exit_status (fst (main T a)) \<noteq> 0
     \<and> set (snd (main T a)) \<subseteq> range Print_opt
     \<and> Print ''===> Loading datasets'' \<notin> set (snd (main T a))"
proof (cases "arg_upscale_factor a")
  case None
  then show ?thesis by (simp add: main_def parse_args_def)
next
  case (Some u)
  with assms show ?thesis
    by (auto simp: main_def parse_args_def check_devices_def Let_def)
qed

theorem invalid_configuration_is_fatal_witness:
  "main example_torch ((example_argv 1)\<lparr>arg_cuda := True\<rparr>)
     = (Some (Exception ''No GPU found, please run without --cuda''),
        [Print_opt ((example_namespace 1)\<lparr>cuda := True\<rparr>)])
   \<and> exit_status (fst (main example_torch ((example_argv 1)\<lparr>arg_cuda := True\<rparr>))) = 1
   \<and> exit_status (fst (main (example_torch\<lparr>mps_is_available := True\<rparr>) (example_argv 1))) = 1
   \<and> exit_status (fst (main example_torch ((example_argv 1)\<lparr>arg_upscale_factor := None\<rparr>))) = 2
   \<and> Print ''===> Loading datasets''
        \<notin> set (snd (main example_torch ((example_argv 1)\<lparr>arg_cuda := True\<rparr>)))
   \<and> Print ''===> Loading datasets''
        \<notin> set (snd (main (example_torch\<lparr>mps_is_available := True\<rparr>) (example_argv 1)))
   \<and> Print ''===> Loading datasets''
        \<notin> set (snd (main example_torch ((example_argv 1)\<lparr>arg_upscale_factor := None\<rparr>)))"
proof -
  have h1: "(arg_cuda ((example_argv 1)\<lparr>arg_cuda := True\<rparr>) \<and> \<not> cuda_is_available example_torch)
      \<or> (mps_is_available example_torch \<and> \<not> arg_mps ((example_argv 1)\<lparr>arg_cuda := True\<rparr>))
      \<or> arg_upscale_factor ((example_argv 1)\<lparr>arg_cuda := True\<rparr>) = None"
    by (simp add: example_torch_def)
  have h2: "(arg_cuda (example_argv 1) \<and> \<not> cuda_is_available (example_torch\<lparr>mps_is_available := True\<rparr>))
      \<or> (mps_is_available (example_torch\<lparr>mps_is_available := True\<rparr>) \<and> \<not> arg_mps (example_argv 1))
      \<or> arg_upscale_factor (example_argv 1) = None"
    by (simp add: example_argv_def)
  have h3: "(arg_cuda ((example_argv 1)\<lparr>arg_upscale_factor := None\<rparr>) \<and> \<not> cuda_is_available example_torch)
      \<or> (mps_is_available example_torch \<and> \<not> arg_mps ((example_argv 1)\<lparr>arg_upscale_factor := None\<rparr>))
      \<or> arg_upscale_factor ((example_argv 1)\<lparr>arg_upscale_factor := None\<rparr>) = None"
    by simp
  have m: "main example_torch ((example_argv 1)\<lparr>arg_cuda := True\<rparr>)
     = (Some (Exception ''No GPU found, please run without --cuda''),
        [Print_opt ((example_namespace 1)\<lparr>cuda := True\<rparr>)])"
    "exit_status (fst (main example_torch ((example_argv 1)\<lparr>arg_cuda := True\<rparr>))) = 1"
    "exit_status (fst (main (example_torch\<lparr>mps_is_available := True\<rparr>) (example_argv 1))) = 1"
    "exit_status (fst (main example_torch ((example_argv 1)\<lparr>arg_upscale_factor := None\<rparr>))) = 2"
    by (simp_all add: main_def example_defs)
  from invalid_configuration_is_fatal [OF h1] invalid_configuration_is_fatal [OF h2]
    invalid_configuration_is_fatal [OF h3] m
  show ?thesis by blast
qed

text \<open>
  C10. With an epoch count of zero and a configuration that passes validation, no training
  and no evaluation step is run, the freshly built model is saved to \<open>model_epoch_0.pth\<close>
  and the process ends normally with status 0.
\<close>

theorem zero_epochs_still_checkpoints:
  assumes "parse_args a = Inr ns" and "check_devices T ns = None" and "nb_epochs ns = 0"
  shows "main T a =
     (None,
      [Print_opt ns, Manual_seed (seed ns), Print ''===> Loading datasets'',
       Get_training_set (upscale_factor ns), Get_test_set (upscale_factor ns),
       Print ''===> Building model'',
       Torch_save (module_to T (select_device T ns) (Net T (upscale_factor ns)))
         ''model_epoch_0.pth'',
       Print ''Checkpoint saved to model_epoch_0.pth''])
     \<and> exit_status (fst (main T a)) = 0"
  using assms
  by (simp add: main_unfold prepare_simps preamble_def spec_checkpoint_def str_int_def
        str_nat.simps digit_char_def)

theorem zero_epochs_still_checkpoints_witness:
  "parse_args (example_argv 0) = Inr (example_namespace 0)
   \<and> check_devices example_torch (example_namespace 0) = None
   \<and> nb_epochs (example_namespace 0) = 0
   \<and> main example_torch (example_argv 0) =
     (None,
      [Print_opt (example_namespace 0), Manual_seed 123, Print ''===> Loading datasets'',
       Get_training_set 3, Get_test_set 3, Print ''===> Building model'',
       Torch_save 1 ''model_epoch_0.pth'',
       Print ''Checkpoint saved to model_epoch_0.pth''])"
proof -
  have h: "parse_args (example_argv 0) = Inr (example_namespace 0)"
    "check_devices example_torch (example_namespace 0) = None"
    "nb_epochs (example_namespace 0) = 0"
    by (simp_all add: example_defs)
  from zero_epochs_still_checkpoints [OF h] h show ?thesis
    by (simp add: example_torch_def example_namespace_def select_device_def)
qed

lemma main_raise:
  assumes "parse_args a = Inr ns" and "check_devices T ns = None"
    and "epochs T [1..nb_epochs ns] (prepare T ns [Print_opt ns]) = Inl (e, w)"
  shows "main T a = (Some e, trace w)"
  using assms by (simp add: main_unfold)

lemma train_empty:
  assumes "dl_iter (training_data_loader w) (train_pass w) = []"
    and "dl_len (training_data_loader w) = 0"
  shows "train T epoch w = Inl (ZeroDivisionError, w\<lparr>train_pass := Suc (train_pass w)\<rparr>)"
  using assms by (simp add: train_def Let_def truediv_def)

lemma test_empty:
  assumes "dl_iter (testing_data_loader w) (test_pass w) = []"
    and "dl_len (testing_data_loader w) = 0"
  shows "test T w = Inl (ZeroDivisionError, w\<lparr>test_pass := Suc (test_pass w)\<rparr>)"
  using assms by (simp add: test_unfold truediv_def)

subsection \<open>Reported averages\<close>

text \<open>
  C3. In an epoch with at least one training batch, where the loader's length is the number
  of batches it yields, \<open>train\<close> returns and the average loss it reports is the sum of the
  loss values of the batches of that epoch, as read by \<open>loss.item()\<close>, divided by their
  number.
\<close>

theorem train_reports_mean_loss:
  assumes "dl_iter (training_data_loader w) (train_pass w) \<noteq> []"
    and "dl_len (training_data_loader w) = length (dl_iter (training_data_loader w) (train_pass w))"
  shows "\<exists>vs w'. train T epoch w = Inr w'
     \<and> length vs = length (dl_iter (training_data_loader w) (train_pass w))
     \<and> trace w' = trace w
         @ spec_train_steps epoch (device w) (grad_enabled w) (length vs) 1 vs
         @ [Print_epoch epoch (sum_list vs / real (length vs))]"
proof -
  from train_result [of w T epoch] obtain vs w' where h:
    "length vs = length (dl_iter (training_data_loader w) (train_pass w))"
    "train T epoch w =
         (if dl_len (training_data_loader w) = 0 then Inl (ZeroDivisionError, w')
          else Inr (emit (Print_epoch epoch (sum_list vs / real (dl_len (training_data_loader w)))) w'))"
    "trace w' = trace w @ spec_train_steps epoch (device w) (grad_enabled w)
                              (dl_len (training_data_loader w)) 1 vs"
    by blast
  have n: "dl_len (training_data_loader w) = length vs" "dl_len (training_data_loader w) \<noteq> 0"
    using assms h(1) by simp_all
  show ?thesis
    apply (rule exI [of _ vs])
    apply (rule exI [of _ "emit (Print_epoch epoch (sum_list vs / real (length vs))) w'"])
    using h n by simp
qed

theorem train_reports_mean_loss_witness:
  "dl_iter (training_data_loader example_world) (train_pass example_world) \<noteq> []
   \<and> dl_len (training_data_loader example_world)
       = length (dl_iter (training_data_loader example_world) (train_pass example_world))
   \<and> (\<exists>vs w'. train example_torch 1 example_world = Inr w'
     \<and> length vs = 2
     \<and> trace w' = trace example_world
         @ spec_train_steps 1 ''cpu'' True (length vs) 1 vs
         @ [Print_epoch 1 (sum_list vs / real (length vs))])"
proof -
  have h: "dl_iter (training_data_loader example_world) (train_pass example_world) \<noteq> []"
    "dl_len (training_data_loader example_world)
       = length (dl_iter (training_data_loader example_world) (train_pass example_world))"
    by (simp_all add: example_defs)
  have e: "length (dl_iter (training_data_loader example_world) (train_pass example_world)) = 2"
    "device example_world = ''cpu''" "grad_enabled example_world = True"
    by (simp_all add: example_defs)
  from train_reports_mean_loss [OF h, of example_torch 1] h show ?thesis
    by (simp only: e) simp
qed

text \<open>
  C4. In an evaluation pass where every batch has \<open>mse > 0\<close> and the loader's length is the
  number of batches it yields, the average PSNR that \<open>test\<close> reports is the arithmetic mean
  over the batches of \<open>10 * log10(1 / mse)\<close>, \<open>mse\<close> being the criterion's value on the
  model's prediction for that batch; \<open>test\<close> reports it whenever there is a batch, and
  raises with no report when there is none.
\<close>

theorem test_reports_mean_psnr:
  assumes "\<forall>b\<in>set (dl_iter (testing_data_loader w) (test_pass w)).
             0 < batch_mse T (device w) (model w) b"
    and "dl_len (testing_data_loader w) = length (dl_iter (testing_data_loader w) (test_pass w))"
  shows "test T w =
     (let batches = dl_iter (testing_data_loader w) (test_pass w);
          w' = w\<lparr>test_pass := Suc (test_pass w),
                 trace := trace w @ spec_eval_steps (device w) False
                                      (map (batch_mse T (device w) (model w)) batches)\<rparr>
      in if batches = [] then Inl (ZeroDivisionError, w')
         else Inr (emit (Print_psnr
                 (sum_list (map (\<lambda>b. 10 * log 10 (1 / batch_mse T (device w) (model w) b)) batches)
                  / real (length batches))) w'))"
  using assms(2) unfolding test_ok [OF assms(1)]
  by (simp add: Let_def comp_def psnr_def)

theorem test_reports_mean_psnr_witness:
  "map (batch_mse example_torch (device example_world) (model example_world))
       (dl_iter (testing_data_loader example_world) (test_pass example_world)) = [1, 1 / 100]
   \<and> dl_len (testing_data_loader example_world)
       = length (dl_iter (testing_data_loader example_world) (test_pass example_world))
   \<and> test example_torch example_world =
       Inr (example_world\<lparr>test_pass := 1,
              trace := [Manual_seed 123, Print ''===> Loading datasets'', Get_training_set 3,
                        Get_test_set 3, Print ''===> Building model'',
                        To_device ''cpu'', To_device ''cpu'', Model_call False, Criterion, Item 1,
                        To_device ''cpu'', To_device ''cpu'', Model_call False, Criterion,
                        Item (1 / 100),
                        Print_psnr 10]\<rparr>)"
proof -
  have h: "\<forall>b\<in>set (dl_iter (testing_data_loader example_world) (test_pass example_world)).
       0 < batch_mse example_torch (device example_world) (model example_world) b"
    "dl_len (testing_data_loader example_world)
       = length (dl_iter (testing_data_loader example_world) (test_pass example_world))"
    by (simp_all add: example_defs batch_mse_def Let_def power2_eq_square)
  have ms: "map (batch_mse example_torch (device example_world) (model example_world))
       (dl_iter (testing_data_loader example_world) (test_pass example_world)) = [1, 1 / 100]"
    by (simp add: example_defs batch_mse_def Let_def power2_eq_square)
  from test_reports_mean_psnr [OF h] h(2) ms show ?thesis
    by (simp add: example_defs batch_mse_def Let_def power2_eq_square emit_def log_10_100)
qed

subsection \<open>Divisions by zero\<close>

text \<open>
  C9. A training loader that yields no batch and has length zero makes \<open>train\<close> raise
  \<open>ZeroDivisionError\<close> at the average of line 90, and an evaluation loader that yields no
  batch and has length zero makes \<open>test\<close> raise it at the average of line 104; in the
  first epoch of a run either ends the process with that error and status 1.
\<close>

theorem empty_loader_divides_by_zero:
  "(dl_iter (training_data_loader w) (train_pass w) = [] \<and> dl_len (training_data_loader w) = 0
      \<longrightarrow> train T epoch w = Inl (ZeroDivisionError, w\<lparr>train_pass := Suc (train_pass w)\<rparr>))
   \<and> (dl_iter (testing_data_loader w) (test_pass w) = [] \<and> dl_len (testing_data_loader w) = 0
      \<longrightarrow> test T w = Inl (ZeroDivisionError, w\<lparr>test_pass := Suc (test_pass w)\<rparr>))
   \<and> (parse_args a = Inr ns \<and> check_devices T ns = None \<and> 1 \<le> nb_epochs ns
        \<and> w = prepare T ns [Print_opt ns]
        \<and> dl_iter (training_data_loader w) (train_pass w) = []
        \<and> dl_len (training_data_loader w) = 0
      \<longrightarrow> main T a = (Some ZeroDivisionError, trace w)
        \<and> exit_status (fst (main T a)) = 1)
   \<and> (parse_args a = Inr ns \<and> check_devices T ns = None \<and> 1 \<le> nb_epochs ns
        \<and> train T 1 (prepare T ns [Print_opt ns]) = Inr w
        \<and> dl_iter (testing_data_loader w) (test_pass w) = []
        \<and> dl_len (testing_data_loader w) = 0
      \<longrightarrow> main T a = (Some ZeroDivisionError, trace w)
        \<and> exit_status (fst (main T a)) = 1)"
proof (intro conjI impI; (elim conjE)?)
  assume "dl_iter (training_data_loader w) (train_pass w) = []"
    "dl_len (training_data_loader w) = 0"
  then show "train T epoch w = Inl (ZeroDivisionError, w\<lparr>train_pass := Suc (train_pass w)\<rparr>)"
    by (rule train_empty)
next
  assume "dl_iter (testing_data_loader w) (test_pass w) = []"
    "dl_len (testing_data_loader w) = 0"
  then show "test T w = Inl (ZeroDivisionError, w\<lparr>test_pass := Suc (test_pass w)\<rparr>)"
    by (rule test_empty)
next
  assume h: "parse_args a = Inr ns" "check_devices T ns = None" "1 \<le> nb_epochs ns"
    "w = prepare T ns [Print_opt ns]"
    "dl_iter (training_data_loader w) (train_pass w) = []"
    "dl_len (training_data_loader w) = 0"
  have "[1..nb_epochs ns] = 1 # [2..nb_epochs ns]"
    using h(3) by (simp add: upto_rec1)
  then have "epochs T [1..nb_epochs ns] (prepare T ns [Print_opt ns])
      = Inl (ZeroDivisionError, w\<lparr>train_pass := Suc (train_pass w)\<rparr>)"
    using train_empty [OF h(5,6), of T 1] h(4) by simp
  from main_raise [OF h(1,2) this]
  show "main T a = (Some ZeroDivisionError, trace w)" "exit_status (fst (main T a)) = 1"
    by simp_all
next
  assume h: "parse_args a = Inr ns" "check_devices T ns = None" "1 \<le> nb_epochs ns"
    "train T 1 (prepare T ns [Print_opt ns]) = Inr w"
    "dl_iter (testing_data_loader w) (test_pass w) = []"
    "dl_len (testing_data_loader w) = 0"
  have "[1..nb_epochs ns] = 1 # [2..nb_epochs ns]"
    using h(3) by (simp add: upto_rec1)
  then have "epochs T [1..nb_epochs ns] (prepare T ns [Print_opt ns])
      = Inl (ZeroDivisionError, w\<lparr>test_pass := Suc (test_pass w)\<rparr>)"
    using test_empty [OF h(5,6), of T] h(4) by simp
  from main_raise [OF h(1,2) this]
  show "main T a = (Some ZeroDivisionError, trace w)" "exit_status (fst (main T a)) = 1"
    by simp_all
qed

lemma example_parse: "parse_args (example_argv n) = Inr (example_namespace n)"
  by (simp add: example_defs)

theorem empty_loader_divides_by_zero_witness:
  "train example_empty_train 1
       (prepare example_empty_train (example_namespace 2) [Print_opt (example_namespace 2)])
     = Inl (ZeroDivisionError,
         (prepare example_empty_train (example_namespace 2) [Print_opt (example_namespace 2)])
           \<lparr>train_pass := 1\<rparr>)
   \<and> (\<exists>w'. test example_empty_test (final (train example_empty_test 1
           (prepare example_empty_test (example_namespace 2) [Print_opt (example_namespace 2)])))
         = Inl (ZeroDivisionError, w'))
   \<and> main example_empty_train (example_argv 2)
     = (Some ZeroDivisionError,
        [Print_opt (example_namespace 2), Manual_seed 123, Print ''===> Loading datasets'',
         Get_training_set 3, Get_test_set 3, Print ''===> Building model''])
   \<and> main example_empty_test (example_argv 2)
     = (Some ZeroDivisionError,
        [Print_opt (example_namespace 2), Manual_seed 123, Print ''===> Loading datasets'',
         Get_training_set 3, Get_test_set 3, Print ''===> Building model'',
         To_device ''cpu'', To_device ''cpu'', Zero_grad, Model_call True, Criterion, Item 4,
         Backward, Optimizer_step, Item 4, Print_batch 1 1 2 4,
         To_device ''cpu'', To_device ''cpu'', Zero_grad, Model_call True, Criterion, Item 0,
         Backward, Optimizer_step, Item 0, Print_batch 1 2 2 0,
         Print_epoch 1 2])"
proof -
  define w1 where "w1 = prepare example_empty_train (example_namespace 2) [Print_opt (example_namespace 2)]"
  define w2 where "w2 = final (train example_empty_test 1
     (prepare example_empty_test (example_namespace 2) [Print_opt (example_namespace 2)]))"
  have c: "check_devices example_empty_train (example_namespace 2) = None"
    "check_devices example_empty_test (example_namespace 2) = None"
    "1 \<le> nb_epochs (example_namespace 2)"
    by (simp_all add: example_defs example_empty_train_def example_empty_test_def)
  have h1: "dl_iter (training_data_loader w1) (train_pass w1) = []"
    "dl_len (training_data_loader w1) = 0"
    by (simp_all add: w1_def example_defs example_empty_train_def)
  have t: "train example_empty_test 1
     (prepare example_empty_test (example_namespace 2) [Print_opt (example_namespace 2)]) = Inr w2"
    by (simp add: w2_def final_def train_def Let_def truediv_def example_defs example_empty_test_def)
  have h2: "dl_iter (testing_data_loader w2) (test_pass w2) = []"
    "dl_len (testing_data_loader w2) = 0"
    by (simp_all add: w2_def final_def train_def Let_def truediv_def example_defs
          example_empty_test_def emit_def)
  have tr: "trace w1 = [Print_opt (example_namespace 2), Manual_seed 123, Print ''===> Loading datasets'',
         Get_training_set 3, Get_test_set 3, Print ''===> Building model'']"
    "trace w2 = [Print_opt (example_namespace 2), Manual_seed 123, Print ''===> Loading datasets'',
         Get_training_set 3, Get_test_set 3, Print ''===> Building model'',
         To_device ''cpu'', To_device ''cpu'', Zero_grad, Model_call True, Criterion, Item 4,
         Backward, Optimizer_step, Item 4, Print_batch 1 1 2 4,
         To_device ''cpu'', To_device ''cpu'', Zero_grad, Model_call True, Criterion, Item 0,
         Backward, Optimizer_step, Item 0, Print_batch 1 2 2 0,
         Print_epoch 1 2]"
    by (simp_all add: w1_def w2_def final_def train_def Let_def truediv_def example_defs
          example_empty_train_def example_empty_test_def emit_def)
  from empty_loader_divides_by_zero
    [where w = w1 and T = example_empty_train and a = "example_argv 2"
       and ns = "example_namespace 2"]
    c h1 example_parse [of 2]
  have m1: "main example_empty_train (example_argv 2) = (Some ZeroDivisionError, trace w1)"
    by (simp add: w1_def)
  from empty_loader_divides_by_zero
    [where w = w2 and T = example_empty_test and a = "example_argv 2"
       and ns = "example_namespace 2"]
    c h2 t example_parse [of 2]
  have m2: "main example_empty_test (example_argv 2) = (Some ZeroDivisionError, trace w2)"
    by simp
  from empty_loader_divides_by_zero [where w = w1 and T = example_empty_train and epoch = 1] h1
  have f1: "train example_empty_train 1 w1
      = Inl (ZeroDivisionError, w1\<lparr>train_pass := Suc (train_pass w1)\<rparr>)"
    by blast
  have p1: "train_pass w1 = 0"
    by (simp add: w1_def prepare_simps)
  from empty_loader_divides_by_zero [where w = w2 and T = example_empty_test] h2
  have f2: "\<exists>w'. test example_empty_test w2 = Inl (ZeroDivisionError, w')"
    by blast
  show ?thesis
    using f1 f2 unfolding m1 m2 tr p1 by (simp add: w1_def w2_def)
qed

text \<open>
  C5. When an evaluation batch has a mean-squared error of exactly zero (and none has a
  negative one), \<open>test\<close> raises \<open>ZeroDivisionError\<close> at \<open>1 / mse.item()\<close>; nothing catches
  it, so a run that reaches such a pass ends with that error and status 1, and saves no
  checkpoint.
\<close>

theorem zero_mse_is_fatal:
  assumes "\<forall>b\<in>set (dl_iter (testing_data_loader w) (test_pass w)).
             0 \<le> batch_mse T (device w) (model w) b"
    and "\<exists>b\<in>set (dl_iter (testing_data_loader w) (test_pass w)).
             batch_mse T (device w) (model w) b = 0"
  shows "(\<exists>w'. test T w = Inl (ZeroDivisionError, w'))
     \<and> (parse_args a = Inr ns \<and> check_devices T ns = None
          \<and> 1 \<le> k \<and> k \<le> nb_epochs ns
          \<and> epochs T [1..k - 1] (prepare T ns [Print_opt ns]) = Inr w1
          \<and> train T k w1 = Inr w
        \<longrightarrow> fst (main T a) = Some ZeroDivisionError \<and> exit_status (fst (main T a)) = 1
          \<and> filter is_save (snd (main T a)) = [])"
proof -
  define w0 where "w0 = w\<lparr>grad_enabled := False, test_pass := Suc (test_pass w)\<rparr>"
  have w0: "device w0 = device w" "model w0 = model w" by (simp_all add: w0_def)
  from test_loop_zero [of "dl_iter (testing_data_loader w) (test_pass w)" T w0 0] assms
  obtain w' where "test_loop T (dl_iter (testing_data_loader w) (test_pass w)) 0 w0
      = Inl (ZeroDivisionError, w')"
    by (auto simp: w0)
  then have t: "test T w = Inl (ZeroDivisionError, w'\<lparr>grad_enabled := grad_enabled w\<rparr>)"
    by (simp add: test_unfold w0_def)
  have "fst (main T a) = Some ZeroDivisionError \<and> exit_status (fst (main T a)) = 1
          \<and> filter is_save (snd (main T a)) = []"
    if h: "parse_args a = Inr ns" "check_devices T ns = None" "1 \<le> k" "k \<le> nb_epochs ns"
      "epochs T [1..k - 1] (prepare T ns [Print_opt ns]) = Inr w1" "train T k w1 = Inr w"
  proof -
    have "[1..nb_epochs ns] = [1..k - 1] @ k # [k + 1..nb_epochs ns]"
      using h(3,4) by (rule upto_split3)
    then have "epochs T [1..nb_epochs ns] (prepare T ns [Print_opt ns])
        = Inl (ZeroDivisionError, w'\<lparr>grad_enabled := grad_enabled w\<rparr>)"
      using h(5,6) t by (simp add: epochs_append)
    from main_raise [OF h(1,2) this]
    have m: "fst (main T a) = Some ZeroDivisionError" by simp
    then have "fst (main T a) \<noteq> None" by simp
    from main_Some_no_save [OF this] m show ?thesis by simp
  qed
  with t show ?thesis by blast
qed

theorem zero_mse_is_fatal_witness:
  "(\<exists>w'. test example_zero_mse
            (final (train example_zero_mse 1
               (prepare example_zero_mse (example_namespace 2) [Print_opt (example_namespace 2)])))
          = Inl (ZeroDivisionError, w'))
   \<and> fst (main example_zero_mse (example_argv 2)) = Some ZeroDivisionError
   \<and> exit_status (fst (main example_zero_mse (example_argv 2))) = 1"
proof -
  define w0 where
    "w0 = prepare example_zero_mse (example_namespace 2) [Print_opt (example_namespace 2)]"
  define w where "w = final (train example_zero_mse 1 w0)"
  have c: "parse_args (example_argv 2) = Inr (example_namespace 2)
      \<and> check_devices example_zero_mse (example_namespace 2) = None
      \<and> 1 \<le> (1::int) \<and> 1 \<le> nb_epochs (example_namespace 2)
      \<and> epochs example_zero_mse [1..1 - 1] w0 = Inr w0
      \<and> train example_zero_mse 1 w0 = Inr w"
    by (simp add: w_def w0_def final_def train_def Let_def truediv_def example_defs
          example_zero_mse_def)
  have h1: "\<forall>b\<in>set (dl_iter (testing_data_loader w) (test_pass w)).
             0 \<le> batch_mse example_zero_mse (device w) (model w) b"
    by (simp add: w_def w0_def final_def train_def Let_def truediv_def example_defs
          example_zero_mse_def batch_mse_def emit_def)
  have h2: "\<exists>b\<in>set (dl_iter (testing_data_loader w) (test_pass w)).
             batch_mse example_zero_mse (device w) (model w) b = 0"
    by (simp add: w_def w0_def final_def train_def Let_def truediv_def example_defs
          example_zero_mse_def batch_mse_def emit_def)
  from zero_mse_is_fatal [OF h1 h2, where a = "example_argv 2" and ns = "example_namespace 2"
      and k = 1 and ?w1.0 = w0] c
  show ?thesis
    unfolding w_def w0_def by blast
qed

lemma passes_simps [simp]:
  "passes [] = []"
  "passes (ev # evs) = pass_of ev @ passes evs"
  "passes (xs @ ys) = passes xs @ passes ys"
  by (simp_all add: passes_def)

lemma passes_train_steps: "passes (spec_train_steps epoch dev g n i vs) = []"
  by (induction vs arbitrary: i) simp_all

lemma passes_eval_steps: "passes (spec_eval_steps dev g ms) = []"
  by (induction ms) simp_all

lemma passes_epoch: "passes (spec_epoch dev g nt ne e d) = [Training e, Evaluation]"
  by (simp add: spec_epoch_def passes_train_steps passes_eval_steps)

lemma passes_epochs:
  "length ds = length es \<Longrightarrow>
   passes (spec_epochs dev g nt ne es ds) = concat (map (\<lambda>e. [Training e, Evaluation]) es)"
proof (induction es arbitrary: ds)
  case Nil
  then show ?case by simp
next
  case (Cons e es)
  then obtain d ds' where ds: "ds = d # ds'" by (cases ds) simp_all
  with Cons show ?case by (simp add: passes_epoch)
qed

lemma train_passes:
  "passes (trace (final (train T e w)))
     = passes (trace w) @ (case train T e w of Inl x \<Rightarrow> [] | Inr w' \<Rightarrow> [Training e])"
proof -
  from train_result [of w T e] obtain vs w' where h:
    "train T e w =
         (if dl_len (training_data_loader w) = 0 then Inl (ZeroDivisionError, w')
          else Inr (emit (Print_epoch e (sum_list vs / real (dl_len (training_data_loader w)))) w'))"
    "trace w' = trace w @ spec_train_steps e (device w) (grad_enabled w)
                              (dl_len (training_data_loader w)) 1 vs"
    by blast
  show ?thesis
    unfolding h(1) by (simp add: final_def h(2) passes_train_steps)
qed

lemma test_passes:
  "passes (trace (final (test T w)))
     = passes (trace w) @ (case test T w of Inl x \<Rightarrow> [] | Inr w' \<Rightarrow> [Evaluation])"
proof (cases "test_loop T (dl_iter (testing_data_loader w) (test_pass w)) 0
                (w\<lparr>grad_enabled := False, test_pass := Suc (test_pass w)\<rparr>)")
  case (Inl x)
  obtain e w' where x: "x = (e, w')" by (cases x)
  from test_loop_Inl [OF Inl [unfolded x]] obtain ms where
    "trace w' = trace w @ spec_eval_steps (device w) False ms"
    by auto
  then show ?thesis
    by (simp add: test_unfold Inl x final_def passes_eval_steps)
next
  case (Inr r)
  from test_loop_Inr [OF Inr] have "\<forall>b\<in>set (dl_iter (testing_data_loader w) (test_pass w)).
             0 < batch_mse T (device w) (model w) b" by simp
  from test_ok [OF this] show ?thesis
    by (simp add: Let_def final_def passes_eval_steps)
qed

lemma epochs_passes:
  "\<exists>ps. passes (trace (final (epochs T es w))) = passes (trace w) @ ps
     \<and> prefix ps (spec_passes es)"
proof (induction es arbitrary: w)
  case Nil
  show ?case by (simp add: final_def)
next
  case (Cons e es)
  show ?case
  proof (cases "train T e w")
    case (Inl x)
    then have "final (epochs T (e # es) w) = final (train T e w)" by (simp add: final_def)
    then have "passes (trace (final (epochs T (e # es) w))) = passes (trace w) @ []"
      using train_passes [of T e w] Inl by simp
    then show ?thesis by (metis Nil_prefix)
  next
    case (Inr w1)
    then have w1: "passes (trace w1) = passes (trace w) @ [Training e]"
      using train_passes [of T e w] by (simp add: final_def)
    show ?thesis
    proof (cases "test T w1")
      case (Inl x)
      then have "final (epochs T (e # es) w) = final (test T w1)"
        using Inr by (simp add: final_def)
      then have "passes (trace (final (epochs T (e # es) w))) = passes (trace w) @ [Training e]"
        using test_passes [of T w1] Inl w1 by simp
      moreover have "prefix [Training e] (spec_passes (e # es))"
        by (simp add: spec_passes_def)
      ultimately show ?thesis by blast
    next
      case (Inr w2)
      then have w2: "passes (trace w2) = passes (trace w) @ [Training e, Evaluation]"
        using test_passes [of T w1] w1 by (simp add: final_def)
      have e: "epochs T (e # es) w = epochs T es w2"
        using \<open>train T e w = Inr w1\<close> Inr by simp
      from Cons.IH [of w2] obtain ps where
        "passes (trace (final (epochs T es w2))) = passes (trace w2) @ ps"
        "prefix ps (spec_passes es)" by blast
      then have "passes (trace (final (epochs T (e # es) w)))
          = passes (trace w) @ ([Training e, Evaluation] @ ps)"
        "prefix ([Training e, Evaluation] @ ps) (spec_passes (e # es))"
        unfolding e by (simp_all add: w2 spec_passes_def)
      then show ?thesis by blast
    qed
  qed
qed

lemma main_passes:
  assumes "parse_args a = Inr ns"
  shows "prefix (passes (snd (main T a))) (spec_passes [1..nb_epochs ns])"
proof (cases "check_devices T ns")
  case (Some e)
  with assms show ?thesis by (simp add: main_def Let_def)
next
  case None
  note m = main_unfold [OF assms None]
  define w0 where "w0 = prepare T ns [Print_opt ns]"
  from epochs_passes [of T "[1..nb_epochs ns]" w0] obtain ps where p:
    "passes (trace (final (epochs T [1..nb_epochs ns] w0))) = passes (trace w0) @ ps"
    "prefix ps (spec_passes [1..nb_epochs ns])" by blast
  have z: "passes (trace w0) = []"
    by (simp add: w0_def prepare_simps preamble_def)
  show ?thesis
  proof (cases "epochs T [1..nb_epochs ns] w0")
    case (Inl x)
    obtain e w where x: "x = (e, w)" by (cases x)
    from p z show ?thesis
      by (simp add: m Inl [unfolded w0_def] x Inl final_def)
  next
    case (Inr w)
    from p z show ?thesis
      by (simp add: m Inr [unfolded w0_def] Inr final_def spec_checkpoint_def)
  qed
qed

subsection \<open>The run as a whole\<close>

text \<open>
  C6. A run that ends normally saves the model exactly once: its record is that of the
  epoch loop, which holds no save, followed by \<open>torch.save\<close> of the model as the last
  epoch left it, to \<open>model_epoch_<N>.pth\<close> with \<open>N\<close> the configured epoch count, and
  the line reporting the path. A run that ends with an error saves nothing.
\<close>

theorem checkpoint_once_after_last_epoch:
  "(fst (main T a) = None \<longrightarrow>
      (\<exists>ns w. parse_args a = Inr ns
         \<and> epochs T [1..nb_epochs ns] (prepare T ns [Print_opt ns]) = Inr w
         \<and> snd (main T a) = trace w
             @ [Torch_save (model w) (''model_epoch_'' @ str_int (nb_epochs ns) @ ''.pth''),
                Print (''Checkpoint saved to '' @ ''model_epoch_'' @ str_int (nb_epochs ns) @ ''.pth'')]
         \<and> filter is_save (trace w) = []))
   \<and> (fst (main T a) \<noteq> None \<longrightarrow> filter is_save (snd (main T a)) = [])"
proof (intro conjI impI)
  assume "fst (main T a) = None"
  from main_None [OF this] obtain ns w where h: "parse_args a = Inr ns"
    "epochs T [1..nb_epochs ns] (prepare T ns [Print_opt ns]) = Inr w"
    "snd (main T a) = trace w @ spec_checkpoint (model w) (nb_epochs ns)"
    by blast
  have "filter is_save (trace (final (epochs T [1..nb_epochs ns] (prepare T ns [Print_opt ns]))))
      = filter is_save (preamble ns)"
    by (simp add: epochs_no_save prepare_simps)
  then have "filter is_save (trace w) = []"
    by (simp add: h(2) final_def preamble_def)
  with h show "\<exists>ns w. parse_args a = Inr ns
         \<and> epochs T [1..nb_epochs ns] (prepare T ns [Print_opt ns]) = Inr w
         \<and> snd (main T a) = trace w
             @ [Torch_save (model w) (''model_epoch_'' @ str_int (nb_epochs ns) @ ''.pth''),
                Print (''Checkpoint saved to '' @ ''model_epoch_'' @ str_int (nb_epochs ns) @ ''.pth'')]
         \<and> filter is_save (trace w) = []"
    by (auto simp: spec_checkpoint_def)
next
  assume "fst (main T a) \<noteq> None"
  then show "filter is_save (snd (main T a)) = []" by (rule main_Some_no_save)
qed

lemmas example_run_defs =
  main_def example_defs train_def test_def checkpoint_def emit_def Let_def truediv_def log10_def
  str_int_def str_nat.simps digit_char_def upto.simps

theorem checkpoint_once_after_last_epoch_witness:
  "fst (main example_torch (example_argv 2)) = None
   \<and> filter is_save (snd (main example_torch (example_argv 2)))
       = [Torch_save 5 ''model_epoch_2.pth'']
   \<and> (\<exists>pre. snd (main example_torch (example_argv 2))
         = pre @ [Torch_save 5 ''model_epoch_2.pth'',
                  Print ''Checkpoint saved to model_epoch_2.pth''])
   \<and> fst (main example_zero_mse (example_argv 2)) \<noteq> None
   \<and> filter is_save (snd (main example_zero_mse (example_argv 2))) = []"
proof -
  have h1: "fst (main example_torch (example_argv 2)) = None"
    by (simp add: example_run_defs)
  have h2: "fst (main example_zero_mse (example_argv 2)) \<noteq> None"
    by (simp add: example_run_defs example_zero_mse_def)
  have p: "parse_args (example_argv 2) = Inr ns \<Longrightarrow> nb_epochs ns = 2" for ns
    by (auto simp: example_defs)
  have m: "epochs example_torch [1..2] (prepare example_torch (example_namespace 2)
             [Print_opt (example_namespace 2)]) = Inr w \<Longrightarrow> model w = 5" for w
    by (auto simp: example_run_defs)
  have s: "str_int 2 = ''2''"
    by (simp add: example_run_defs)
  from checkpoint_once_after_last_epoch [of example_torch "example_argv 2"] h1
  obtain ns w where c: "parse_args (example_argv 2) = Inr ns"
    "epochs example_torch [1..nb_epochs ns] (prepare example_torch ns [Print_opt ns]) = Inr w"
    "snd (main example_torch (example_argv 2)) = trace w
             @ [Torch_save (model w) (''model_epoch_'' @ str_int (nb_epochs ns) @ ''.pth''),
                Print (''Checkpoint saved to '' @ ''model_epoch_'' @ str_int (nb_epochs ns) @ ''.pth'')]"
    "filter is_save (trace w) = []"
    by blast
  from c(1) have ns: "ns = example_namespace 2" by (simp add: example_parse)
  from c(2) have "model w = 5" unfolding ns by (simp add: m example_namespace_def)
  with c(3,4) have "snd (main example_torch (example_argv 2)) = trace w
             @ [Torch_save 5 ''model_epoch_2.pth'', Print ''Checkpoint saved to model_epoch_2.pth'']"
    "filter is_save (trace w) = []"
    by (simp_all add: ns s example_namespace_def)
  with h1 h2 checkpoint_once_after_last_epoch [of example_zero_mse "example_argv 2"]
  show ?thesis by auto
qed



text \<open>
  C8. Whether it returns or raises, \<open>test\<close> leaves the model, the optimizer and the
  gradient mode as it found them, and all it does is move tensors to the device, call the
  model with gradient tracking off, evaluate the criterion, read its value and print the
  average: no gradient reset, no backward pass, no optimizer step. In a run that ends
  normally each training pass is followed by exactly one evaluation pass; in a run that
  ends with an error this holds of every training pass but, at most, the last.
\<close>

theorem evaluation_after_each_epoch_changes_nothing:
  "model (final (test T w)) = model w \<and> optimizer (final (test T w)) = optimizer w
   \<and> grad_enabled (final (test T w)) = grad_enabled w
   \<and> (\<exists>evs. trace (final (test T w)) = trace w @ evs \<and> list_all (eval_event (device w)) evs)
   \<and> (parse_args a = Inr ns \<longrightarrow>
        prefix (passes (snd (main T a))) (spec_passes [1..nb_epochs ns])
        \<and> (fst (main T a) = None \<longrightarrow>
             passes (snd (main T a)) = spec_passes [1..nb_epochs ns]))"
proof -
  from test_frame [of T w] obtain evs where f:
    "final (test T w) = w\<lparr>test_pass := Suc (test_pass w), trace := trace w @ evs\<rparr>"
    "list_all (eval_event (device w)) evs" by blast
  have 1: "model (final (test T w)) = model w" "optimizer (final (test T w)) = optimizer w"
    "grad_enabled (final (test T w)) = grad_enabled w"
    "trace (final (test T w)) = trace w @ evs"
    by (simp_all add: f(1))
  have 2: "passes (snd (main T a)) = spec_passes [1..nb_epochs ns]"
    if p: "parse_args a = Inr ns" and n: "fst (main T a) = None"
  proof -
    from main_None [OF n] p obtain w where h:
      "epochs T [1..nb_epochs ns] (prepare T ns [Print_opt ns]) = Inr w"
      "snd (main T a) = trace w @ spec_checkpoint (model w) (nb_epochs ns)"
      by auto
    define w0 where "w0 = prepare T ns [Print_opt ns]"
    from epochs_Inr_shape [OF h(1) [folded w0_def]] obtain ds where d:
      "length ds = length [1..nb_epochs ns]"
      "trace w = trace w0 @ spec_epochs (device w0) (grad_enabled w0)
                      (dl_len (training_data_loader w0)) (dl_len (testing_data_loader w0))
                      [1..nb_epochs ns] ds"
      by blast
    show ?thesis
      unfolding h(2) d(2)
      by (simp add: passes_epochs [OF d(1)] w0_def prepare_simps preamble_def spec_checkpoint_def
            spec_passes_def)
  qed
  have 3: "prefix (passes (snd (main T a))) (spec_passes [1..nb_epochs ns])"
    if "parse_args a = Inr ns"
    using that by (rule main_passes)
  from 1 2 3 f(2) show ?thesis by blast
qed

theorem evaluation_after_each_epoch_changes_nothing_witness:
  "parse_args (example_argv 2) = Inr (example_namespace 2)
   \<and> fst (main example_torch (example_argv 2)) = None
   \<and> passes (snd (main example_torch (example_argv 2)))
       = [Training 1, Evaluation, Training 2, Evaluation]
   \<and> prefix (passes (snd (main example_zero_mse (example_argv 2))))
        [Training 1, Evaluation, Training 2, Evaluation]
   \<and> model (final (test example_torch example_world)) = 1"
proof -
  have h: "fst (main example_torch (example_argv 2)) = None"
    by (simp add: example_run_defs)
  have m: "model example_world = 1"
    by (simp add: example_defs)
  have s: "spec_passes [1..nb_epochs (example_namespace 2)]
      = [Training 1, Evaluation, Training 2, Evaluation]"
    by (simp add: spec_passes_def example_namespace_def upto.simps)
  note p = example_parse [of 2]
  from evaluation_after_each_epoch_changes_nothing
    [of example_torch example_world "example_argv 2" "example_namespace 2"] h p
  have c: "passes (snd (main example_torch (example_argv 2)))
       = spec_passes [1..nb_epochs (example_namespace 2)]"
    "model (final (test example_torch example_world)) = model example_world"
    by blast+
  from evaluation_after_each_epoch_changes_nothing
    [of example_zero_mse example_world "example_argv 2" "example_namespace 2"] p
  have "prefix (passes (snd (main example_zero_mse (example_argv 2))))
          (spec_passes [1..nb_epochs (example_namespace 2)])"
    by blast
  with h c m p show ?thesis
    unfolding s by simp
qed

end
